theory Spec2Isabelle
  imports Complex_Main "HOL-Library.Sublist" "HOL-Library.Log_Nat"
begin

section \<open>Exceptions\<close>

text \<open>
  The runtime (\<^verbatim>\<open>ui/sd_internal/runtime.py\<close>) signals every failure by raising a Python
  exception.  An exception is a value here: a function that may raise returns
  \<open>exn + 'a\<close>, with \<open>Inl\<close> for the exception.  Each constructor carries the message the
  source gives the exception; an exception of the interpreter or of a library carries a
  short description of its cause.
\<close>

datatype exn =
    FileNotFoundError string
  | ValueError string
  | NameError string
  | EnvironmentError string
  | RuntimeError string
  | AssertionError string
  | TypeError string
  | AttributeError string
  | KeyError string
  | IndexError string
  | ZeroDivisionError string
  | OverflowError string
  | UserInitiatedStop string
  | Exception string

text \<open>\<^verbatim>\<open>str(e)\<close>: the message; a \<^verbatim>\<open>KeyError\<close> prints the \<^verbatim>\<open>repr\<close> of its key.\<close>

fun str_of :: "exn \<Rightarrow> string" where
  "str_of (FileNotFoundError m) = m"
| "str_of (ValueError m) = m"
| "str_of (NameError m) = m"
| "str_of (EnvironmentError m) = m"
| "str_of (RuntimeError m) = m"
| "str_of (AssertionError m) = m"
| "str_of (TypeError m) = m"
| "str_of (AttributeError m) = m"
| "str_of (KeyError m) = [CHR 0x27] @ m @ [CHR 0x27]"
| "str_of (IndexError m) = m"
| "str_of (ZeroDivisionError m) = m"
| "str_of (OverflowError m) = m"
| "str_of (UserInitiatedStop m) = m"
| "str_of (Exception m) = m"

text \<open>
  An attribute access on \<^verbatim>\<open>None\<close>, to read the attribute, to call it or to assign it,
  raises \<^verbatim>\<open>AttributeError\<close> with the message
  \<^verbatim>\<open>'NoneType' object has no attribute 'name'\<close>.
\<close>

definition no_attribute :: "string \<Rightarrow> exn" where
  "no_attribute name =
     AttributeError ([CHR 0x27] @ ''NoneType'' @ [CHR 0x27] @ '' object has no attribute '' @
                     [CHR 0x27] @ name @ [CHR 0x27])"

section \<open>Image codec utilities\<close>

text \<open>
  \<^verbatim>\<open>img_to_base64_str\<close> and \<^verbatim>\<open>base64_str_to_img\<close> call two libraries: PIL
  (\<^verbatim>\<open>img.save\<close>, \<^verbatim>\<open>Image.open\<close>) and \<^verbatim>\<open>base64\<close>.  Both are outside the repository; the
  record \<open>codec\<close> holds them as parameters.  A byte is a natural number below 256.
\<close>

type_synonym bytes = "nat list"

record 'img codec =
  image_save :: "'img \<Rightarrow> string \<Rightarrow> exn + bytes"
  b64encode :: "bytes \<Rightarrow> string"
  b64decode :: "string \<Rightarrow> exn + bytes"
  image_open :: "bytes \<Rightarrow> exn + 'img"

text \<open>\<^verbatim>\<open>str.lower()\<close> on the ASCII letters.\<close>

definition lower_char :: "char \<Rightarrow> char" where
  "lower_char c =
     (let n = (of_char c :: nat) in if 65 \<le> n \<and> n \<le> 90 then char_of (n + 32) else c)"

definition lower :: "string \<Rightarrow> string" where
  "lower s = map lower_char s"

text \<open>
  \<^verbatim>\<open>
  def img_to_base64_str(img, output_format="PNG"):
      buffered = BytesIO()
      img.save(buffered, format=output_format)
      buffered.seek(0)
      img_byte = buffered.getvalue()
      mime_type = "image/png" if output_format.lower() == "png" else "image/jpeg"
      img_str = f"data:{mime_type};base64," + base64.b64encode(img_byte).decode()
      return img_str
  \<close>
\<close>

definition img_to_base64_str :: "'img codec \<Rightarrow> 'img \<Rightarrow> string \<Rightarrow> exn + string" where
  "img_to_base64_str cd img output_format =
     (case image_save cd img output_format of
        Inl e \<Rightarrow> Inl e
      | Inr img_byte \<Rightarrow>
          (let mime_type = (if lower output_format = ''png'' then ''image/png'' else ''image/jpeg'')
           in Inr (''data:'' @ mime_type @ '';base64,'' @ b64encode cd img_byte)))"

text \<open>
  \<^verbatim>\<open>
  def base64_str_to_img(img_str):
      mime_type = "image/png" if img_str.startswith("data:image/png;") else "image/jpeg"
      img_str = img_str[len(f"data:{mime_type};base64,"):]
      data = base64.b64decode(img_str)
      buffered = BytesIO(data)
      img = Image.open(buffered)
      return img
  \<close>
  A Python slice \<^verbatim>\<open>s[n:]\<close> of a string shorter than \<open>n\<close> is the empty string, as
  \<open>drop n s\<close> is.
\<close>

definition base64_str_to_img :: "'img codec \<Rightarrow> string \<Rightarrow> exn + 'img" where
  "base64_str_to_img cd img_str =
     (let mime_type = (if prefix ''data:image/png;'' img_str then ''image/png'' else ''image/jpeg'');
          img_str' = drop (length (''data:'' @ mime_type @ '';base64,'')) img_str
      in case b64decode cd img_str' of
           Inl e \<Rightarrow> Inl e
         | Inr data \<Rightarrow> image_open cd data)"

subsection \<open>A concrete codec, for evaluation\<close>

text \<open>
  Standard base64 (RFC 4648 alphabet, \<open>=\<close> padding) on byte lists, and a raw image
  format whose file is the pixel bytes themselves.  They instantiate the \<open>codec\<close>
  parameters where a theorem is evaluated on a concrete input.
\<close>

definition b64_alphabet :: string where
  "b64_alphabet = ''ABCDEFGHIJKLMNOPQRSTUVWXYZabcdefghijklmnopqrstuvwxyz0123456789+/''"

fun std_b64encode :: "bytes \<Rightarrow> string" where
  "std_b64encode [] = []"
| "std_b64encode [a] =
     [b64_alphabet ! (a div 4), b64_alphabet ! ((a mod 4) * 16), CHR ''='', CHR ''='']"
| "std_b64encode [a, b] =
     [b64_alphabet ! (a div 4), b64_alphabet ! ((a mod 4) * 16 + b div 16),
      b64_alphabet ! ((b mod 16) * 4), CHR ''='']"
| "std_b64encode (a # b # c # r) =
     [b64_alphabet ! (a div 4), b64_alphabet ! ((a mod 4) * 16 + b div 16),
      b64_alphabet ! ((b mod 16) * 4 + c div 64), b64_alphabet ! (c mod 64)] @ std_b64encode r"

fun b64_index :: "string \<Rightarrow> char \<Rightarrow> nat option" where
  "b64_index [] c = None"
| "b64_index (x # xs) c = (if x = c then Some 0 else map_option Suc (b64_index xs c))"

fun std_b64decode :: "string \<Rightarrow> exn + bytes" where
  "std_b64decode [] = Inr []"
| "std_b64decode (w # x # y # z # r) =
     (case (b64_index b64_alphabet w, b64_index b64_alphabet x) of
        (Some i, Some j) \<Rightarrow>
          (if y = CHR ''='' \<and> z = CHR ''='' \<and> r = [] then Inr [i * 4 + j div 16]
           else (case b64_index b64_alphabet y of
                   None \<Rightarrow> Inl (ValueError ''Incorrect padding'')
                 | Some k \<Rightarrow>
                     (if z = CHR ''='' \<and> r = []
                      then Inr [i * 4 + j div 16, (j mod 16) * 16 + k div 4]
                      else (case b64_index b64_alphabet z of
                              None \<Rightarrow> Inl (ValueError ''Incorrect padding'')
                            | Some l \<Rightarrow>
                                (case std_b64decode r of
                                   Inl e \<Rightarrow> Inl e
                                 | Inr bs \<Rightarrow>
                                     Inr ([i * 4 + j div 16, (j mod 16) * 16 + k div 4,
                                           (k mod 4) * 64 + l] @ bs))))))
      | _ \<Rightarrow> Inl (ValueError ''Incorrect padding''))"
| "std_b64decode _ = Inl (ValueError ''Incorrect padding'')"

definition raw_codec :: "bytes codec" where
  "raw_codec = \<lparr> image_save = (\<lambda>img fmt. Inr img), b64encode = std_b64encode,
                  b64decode = std_b64decode, image_open = (\<lambda>bs. Inr bs) \<rparr>"

section \<open>Devices\<close>

text \<open>
  A device is what Python passes around as one: a string (\<^verbatim>\<open>'cpu'\<close>, \<^verbatim>\<open>'cuda'\<close>,
  \<^verbatim>\<open>'cuda:0'\<close>, ...) or an accelerator index.
\<close>

datatype device = DevStr string | DevInt int

fun str_nat :: "nat \<Rightarrow> string" where
  "str_nat n = (if n < 10 then [char_of (48 + n)]
                else str_nat (n div 10) @ [char_of (48 + n mod 10)])"

declare str_nat.simps [simp del]

definition str_int :: "int \<Rightarrow> string" where
  "str_int i = (if i < 0 then ''-'' @ str_nat (nat (- i)) else str_nat (nat i))"

fun str_device :: "device \<Rightarrow> string" where
  "str_device (DevStr s) = s"
| "str_device (DevInt i) = str_int i"

text \<open>
  The platform: what \<^verbatim>\<open>torch.cuda\<close>, \<^verbatim>\<open>get_processor_name\<close> and the builtin
  \<^verbatim>\<open>int\<close> answer.  \<open>mem_get_info\<close> gives the free and the total memory of a device in
  bytes, or the message of the \<^verbatim>\<open>RuntimeError\<close> that \<^verbatim>\<open>torch.cuda.mem_get_info\<close>
  raises.  \<open>int_of_str\<close> is \<^verbatim>\<open>int(s)\<close>, \<open>None\<close> where it raises \<^verbatim>\<open>ValueError\<close>.
\<close>

record platform =
  is_available :: bool
  device_count :: int
  mem_get_info :: "device \<Rightarrow> string + (int \<times> int)"
  get_device_name :: "device \<Rightarrow> string"
  current_device :: int
  get_processor_name :: "string option"
  int_of_str :: "string \<Rightarrow> int option"

section \<open>The worker context\<close>

text \<open>
  \<^verbatim>\<open>thread_data\<close> is a thread-local object; every function of the runtime reads and
  writes its attributes.  Here it is a record that the functions take and return.

  The model handles are records of what the runtime itself sets or moves: an object
  identity (the number of the load that created the object), the checkpoint it was
  loaded from, the device its weights are on, and whether \<^verbatim>\<open>.half()\<close> was applied.
\<close>

record unet =
  unet_id :: nat
  unet_ckpt :: string
  cdevice :: device
  model_unet_bs :: int
  model_turbo :: bool
  model1_at :: device
  model2_at :: device
  unet_half :: bool

record component =
  comp_id :: nat
  comp_ckpt :: string
  comp_vae :: "string option"
  comp_at :: device
  comp_half :: bool

record gfpgan =
  gfpgan_device :: device
  gfpgan_model_path :: string

record esrgan =
  esrgan_device :: device
  esrgan_model_path :: string
  esrgan_num_block :: nat
  esrgan_half :: bool
  esrgan_model_at :: device
  esrgan_name :: string

text \<open>
  \<open>partial_x_samples\<close> is an attribute that \<^verbatim>\<open>get_image_progress_generator\<close> creates and
  \<^verbatim>\<open>do_mk_img\<close> deletes: the outer \<open>option\<close> is \<^verbatim>\<open>hasattr\<close>, the inner one is the value
  \<^verbatim>\<open>None\<close>.  \<open>load_count\<close> is not an attribute of the source: it counts the completed
  calls of \<^verbatim>\<open>load_model_ckpt\<close>, so that a reload can be observed.  The attributes
  \<^verbatim>\<open>sampler_plms\<close> and \<^verbatim>\<open>sampler_ddim\<close> are set to \<^verbatim>\<open>None\<close> once and never read; they
  are left out.
\<close>

record 'l thread_data =
  stop_processing :: bool
  temp_images :: "string \<rightharpoonup> bytes"
  ckpt_file :: "string option"
  vae_file :: "string option"
  gfpgan_file :: "string option"
  real_esrgan_file :: "string option"
  model :: "unet option"
  modelCS :: "component option"
  modelFS :: "component option"
  model_gfpgan :: "gfpgan option"
  model_real_esrgan :: "esrgan option"
  model_is_half :: bool
  model_fs_is_half :: bool
  device :: "device option"
  device_name :: "string option"
  unet_bs :: int
  precision :: string
  turbo :: bool
  force_full_precision :: bool
  reduced_memory :: bool
  partial_x_samples :: "'l option option"
  load_count :: nat

text \<open>The assignments at the head of \<^verbatim>\<open>device_init\<close> (lines 105 to 130).\<close>

definition thread_init :: "'l thread_data" where
  "thread_init =
     \<lparr> stop_processing = False, temp_images = Map.empty,
       ckpt_file = None, vae_file = None, gfpgan_file = None, real_esrgan_file = None,
       model = None, modelCS = None, modelFS = None,
       model_gfpgan = None, model_real_esrgan = None,
       model_is_half = False, model_fs_is_half = False,
       device = None, device_name = None, unet_bs = 1, precision = ''autocast'',
       turbo = False, force_full_precision = False, reduced_memory = True,
       partial_x_samples = None, load_count = 0 \<rparr>"

subsection \<open>Device validation and selection\<close>

text \<open>
  \<^verbatim>\<open>
  def device_would_fail(device):
      if device == 'cpu': return None
      try:
          mem_free, mem_total = torch.cuda.mem_get_info(device)
          mem_total /= float(10**9)
          if mem_total < 3.0:
              return 'GPUs with less than 3 GB of VRAM are not compatible with Stable Diffusion'
      except RuntimeError as e:
          return str(e)
      return None
  \<close>
  Memory in GB is the byte count divided by \<open>10\<^sup>9\<close>, taken as a rational number.
\<close>

definition gigabytes :: "int \<Rightarrow> rat" where
  "gigabytes b = of_int b / 10 ^ 9"

definition device_would_fail :: "platform \<Rightarrow> device \<Rightarrow> string option" where
  "device_would_fail pf dev =
     (if dev = DevStr ''cpu'' then None
      else case mem_get_info pf dev of
             Inl e \<Rightarrow> Some e
           | Inr (mem_free, mem_total) \<Rightarrow>
               (if gigabytes mem_total < 3
                then Some ''GPUs with less than 3 GB of VRAM are not compatible with Stable Diffusion''
                else None))"

text \<open>
  \<^verbatim>\<open>
  def device_select(device):
      if device == 'cpu': return True
      if not torch.cuda.is_available(): return False
      failure_msg = device_would_fail(device)
      if failure_msg:
          if 'invalid device' in failure_msg:
              raise NameError(f'GPU "{device}" could not be found. ...')
          print(failure_msg)
          return False
      thread_data.device_name = torch.cuda.get_device_name(device)
      thread_data.device = device
      device_name = thread_data.device_name.lower()
      thread_data.force_full_precision = ('nvidia' in device_name or 'geforce' in device_name)
                                     and (' 1660' in device_name or ' 1650' in device_name)
      if thread_data.force_full_precision:
          thread_data.precision = 'full'
      return True
  \<close>
  \<^verbatim>\<open>if failure_msg\<close> is false for \<^verbatim>\<open>None\<close> and for the empty string.
\<close>

definition device_accept :: "platform \<Rightarrow> device \<Rightarrow> 'l thread_data \<Rightarrow> 'l thread_data" where
  "device_accept pf dev td =
     (let name = get_device_name pf dev;
          n = lower name;
          force = ((sublist ''nvidia'' n \<or> sublist ''geforce'' n)
                   \<and> (sublist '' 1660'' n \<or> sublist '' 1650'' n));
          td1 = td\<lparr>device_name := Some name, device := Some dev,
                   force_full_precision := force\<rparr>
      in if force then td1\<lparr>precision := ''full''\<rparr> else td1)"

definition device_select ::
  "platform \<Rightarrow> device \<Rightarrow> 'l thread_data \<Rightarrow> exn + (bool \<times> 'l thread_data)" where
  "device_select pf dev td =
     (if dev = DevStr ''cpu'' then Inr (True, td)
      else if \<not> is_available pf then Inr (False, td)
      else (let failure_msg = device_would_fail pf dev in
            if failure_msg \<noteq> None \<and> failure_msg \<noteq> Some [] then
              (if sublist ''invalid device'' (the failure_msg) then
                 Inl (NameError (''GPU '' @ [CHR 0x22] @ str_device dev @ [CHR 0x22] @
                   '' could not be found. Remove this device from config.render_devices'' @
                   '' or use one of '' @ [CHR 0x22] @ ''auto'' @ [CHR 0x22] @ '' or '' @
                   [CHR 0x22] @ ''cuda'' @ [CHR 0x22] @ ''.''))
               else Inr (False, td))
            else Inr (True, device_accept pf dev td)))"

subsection \<open>Device initialisation\<close>

text \<open>
  The probing loop of \<^verbatim>\<open>device_init\<close> (lines 150 to 160):
  \<^verbatim>\<open>
  max_mem_free = 0
  best_device = None
  for device in range(device_count):
      mem_free, mem_total = torch.cuda.mem_get_info(device)
      mem_free /= float(10**9)
      mem_total /= float(10**9)
      device_name = torch.cuda.get_device_name(device)
      if max_mem_free < mem_free:
          max_mem_free = mem_free
          best_device = device
  \<close>
  An error of \<^verbatim>\<open>mem_get_info\<close> is not caught here and leaves \<^verbatim>\<open>device_init\<close>.
\<close>

fun probe_loop :: "platform \<Rightarrow> int list \<Rightarrow> rat \<Rightarrow> int option \<Rightarrow> exn + (rat \<times> int option)" where
  "probe_loop pf [] max_mem_free best_device = Inr (max_mem_free, best_device)"
| "probe_loop pf (dev # devs) max_mem_free best_device =
     (case mem_get_info pf (DevInt dev) of
        Inl e \<Rightarrow> Inl (RuntimeError e)
      | Inr (mem_free, mem_total) \<Rightarrow>
          (if max_mem_free < gigabytes mem_free
           then probe_loop pf devs (gigabytes mem_free) (Some dev)
           else probe_loop pf devs max_mem_free best_device))"

text \<open>
  The tail of \<^verbatim>\<open>device_init\<close>, from line 165: an explicit selection, then the current
  device, then the CPU.
  \<^verbatim>\<open>
  if isinstance(device_selection, str):
      device_selection = device_selection.lower()
      if device_selection.startswith('gpu:'):
          device_selection = int(device_selection[4:])
  if device_selection != 'cuda' and device_selection != 'current' and device_selection != 'gpu':
      if device_select(device_selection):
          torch.cuda.device(device_selection)
          return
  device = torch.cuda.current_device()
  device_name = torch.cuda.get_device_name(device)
  if device_select(device):
      return
  thread_data.device = 'cpu'
  thread_data.device_name = get_processor_name()
  \<close>
\<close>

definition use_current_device :: "platform \<Rightarrow> 'l thread_data \<Rightarrow> exn + 'l thread_data" where
  "use_current_device pf td =
     (case device_select pf (DevInt (current_device pf)) td of
        Inl e \<Rightarrow> Inl e
      | Inr (ok, td1) \<Rightarrow>
          (if ok then Inr td1
           else Inr (td1\<lparr>device := Some (DevStr ''cpu''),
                         device_name := get_processor_name pf\<rparr>)))"

definition select_explicit :: "platform \<Rightarrow> string \<Rightarrow> 'l thread_data \<Rightarrow> exn + 'l thread_data" where
  "select_explicit pf device_selection td =
     (let s = lower device_selection in
      case (if prefix ''gpu:'' s
            then (case int_of_str pf (drop 4 s) of
                    None \<Rightarrow> Inl (ValueError (''invalid literal for int() with base 10: '' @ drop 4 s))
                  | Some i \<Rightarrow> Inr (DevInt i))
            else Inr (DevStr s)) of
        Inl e \<Rightarrow> Inl e
      | Inr sel \<Rightarrow>
          (if sel \<noteq> DevStr ''cuda'' \<and> sel \<noteq> DevStr ''current'' \<and> sel \<noteq> DevStr ''gpu''
           then (case device_select pf sel td of
                   Inl e \<Rightarrow> Inl e
                 | Inr (ok, td1) \<Rightarrow> if ok then Inr td1 else use_current_device pf td1)
           else use_current_device pf td))"

text \<open>
  \<^verbatim>\<open>
  def device_init(device_selection=None):
      ...
      if device_selection.lower() == 'cpu':
          thread_data.device = 'cpu'
          thread_data.device_name = get_processor_name()
          return
      if not torch.cuda.is_available():
          if device_selection == 'auto' or device_selection == 'current':
              thread_data.device = 'cpu'
              thread_data.device_name = get_processor_name()
              return
          else:
              raise EnvironmentError('torch.cuda is not available.')
      device_count = torch.cuda.device_count()
      if device_count <= 1 and device_selection == 'auto':
          device_selection = 'current'
      if device_selection == 'auto':
          (the probing loop)
          if best_device and device_select(device):
              torch.cuda.device(device)
              return
      ...
  \<close>
  After the loop the variable \<^verbatim>\<open>device\<close> holds the last index of the range,
  \<open>device_count - 1\<close>; \<^verbatim>\<open>best_device\<close> is false when it is \<^verbatim>\<open>None\<close> or \<open>0\<close>.
\<close>

definition device_init :: "platform \<Rightarrow> string \<Rightarrow> exn + 'l thread_data" where
  "device_init pf device_selection =
     (let td = thread_init in
      if lower device_selection = ''cpu'' then
        Inr (td\<lparr>device := Some (DevStr ''cpu''), device_name := get_processor_name pf\<rparr>)
      else if \<not> is_available pf then
        (if device_selection = ''auto'' \<or> device_selection = ''current''
         then Inr (td\<lparr>device := Some (DevStr ''cpu''), device_name := get_processor_name pf\<rparr>)
         else Inl (EnvironmentError ''torch.cuda is not available.''))
      else
        (let device_selection =
               (if device_count pf \<le> 1 \<and> device_selection = ''auto''
                then ''current'' else device_selection)
         in if device_selection = ''auto'' then
              (case probe_loop pf [0 .. device_count pf - 1] 0 None of
                 Inl e \<Rightarrow> Inl e
               | Inr (max_mem_free, best_device) \<Rightarrow>
                   (if best_device \<noteq> None \<and> best_device \<noteq> Some 0 then
                      (case device_select pf (DevInt (device_count pf - 1)) td of
                         Inl e \<Rightarrow> Inl e
                       | Inr (ok, td1) \<Rightarrow>
                           if ok then Inr td1 else select_explicit pf device_selection td1)
                    else select_explicit pf device_selection td))
            else select_explicit pf device_selection td))"

text \<open>The device with the most free memory among the probed ones (the first, on a tie).\<close>

definition most_free_device :: "platform \<Rightarrow> int option" where
  "most_free_device pf =
     (case probe_loop pf [0 .. device_count pf - 1] 0 None of
        Inl e \<Rightarrow> None
      | Inr (max_mem_free, best_device) \<Rightarrow> best_device)"

text \<open>
  \<^verbatim>\<open>
  def is_first_cuda_device(device):
      if device is None: return False
      if device == 0 or device == '0': return True
      if device == 'cuda' or device == 'cuda:0': return True
      if device == 'gpu' or device == 'gpu:0': return True
      if device == 'current': return True
      if device == torch.device(0): return True
      return False
  \<close>
  The devices of this model are strings and integers, never \<^verbatim>\<open>torch.device\<close> objects, so
  the last test is false.
\<close>

definition is_first_cuda_device :: "device option \<Rightarrow> bool" where
  "is_first_cuda_device dev =
     (case dev of
        None \<Rightarrow> False
      | Some d \<Rightarrow>
          (if d = DevInt 0 \<or> d = DevStr ''0'' then True
           else if d = DevStr ''cuda'' \<or> d = DevStr ''cuda:0'' then True
           else if d = DevStr ''gpu'' \<or> d = DevStr ''gpu:0'' then True
           else if d = DevStr ''current'' then True
           else False))"

subsection \<open>A machine with three accelerators, for evaluation\<close>

definition three_gpus :: platform where
  "three_gpus =
     \<lparr> is_available = True, device_count = 3,
       mem_get_info = (\<lambda>d. if d = DevInt 0 then Inr (1000000000, 12000000000)
                            else if d = DevInt 1 then Inr (10000000000, 12000000000)
                            else if d = DevInt 2 then Inr (2000000000, 12000000000)
                            else Inl ''invalid device ordinal''),
       get_device_name = (\<lambda>d. ''NVIDIA GeForce RTX 3060''),
       current_device = 0, get_processor_name = Some ''cpu'',
       int_of_str = (\<lambda>s. None) \<rparr>"

section \<open>The model cache\<close>

text \<open>
  \<^verbatim>\<open>
  def unload_filters():
      if thread_data.model_gfpgan is not None:
          del thread_data.model_gfpgan
      thread_data.model_gfpgan = None
      if thread_data.model_real_esrgan is not None:
          del thread_data.model_real_esrgan
      thread_data.model_real_esrgan = None

  def unload_models():
      if thread_data.model is not None:
          del thread_data.model
          del thread_data.modelCS
          del thread_data.modelFS
      thread_data.model = None
      thread_data.modelCS = None
      thread_data.modelFS = None
  \<close>
\<close>

definition unload_filters :: "'l thread_data \<Rightarrow> 'l thread_data" where
  "unload_filters td = td\<lparr>model_gfpgan := None, model_real_esrgan := None\<rparr>"

definition unload_models :: "'l thread_data \<Rightarrow> 'l thread_data" where
  "unload_models td = td\<lparr>model := None, modelCS := None, modelFS := None\<rparr>"

text \<open>
  \<^verbatim>\<open>load_model_ckpt\<close> (lines 197 to 286).  The file system is the parameter
  \<open>file_exists\<close> (\<^verbatim>\<open>os.path.exists\<close>).  Reading the checkpoint and building the three
  networks is the work of \<^verbatim>\<open>torch\<close> and \<^verbatim>\<open>ldm\<close>; the model records what the function
  itself decides: which files are read, the precision, where each component is placed,
  and the attributes it sets.
  \<^verbatim>\<open>
  if not thread_data.ckpt_file: raise ValueError(f'Thread ckpt_file is undefined.')
  if not os.path.exists(thread_data.ckpt_file + '.ckpt'): raise FileNotFoundError(...)
  if not thread_data.precision:
      thread_data.precision = 'full' if thread_data.force_full_precision else 'autocast'
  if not thread_data.unet_bs:
      thread_data.unet_bs = 1
  if thread_data.device == 'cpu':
      thread_data.precision = 'full'
  ...
  model.cdevice = torch.device(thread_data.device)
  model.unet_bs = thread_data.unet_bs
  model.turbo = thread_data.turbo
  if thread_data.device != 'cpu':
      model.to(thread_data.device)
  thread_data.model = model
  ...
  if thread_data.device != 'cpu':
      if thread_data.reduced_memory:
          modelCS.to('cpu')
      else:
          modelCS.to(thread_data.device)
  thread_data.modelCS = modelCS
  ...
  if thread_data.vae_file is not None:
      if os.path.exists(thread_data.vae_file + '.vae.pt'):
          (load the VAE weights into modelFS.first_stage_model)
      else:
          print(f'Cannot find VAE file: {thread_data.vae_file}.vae.pt')
  (modelFS is placed as modelCS is)
  if thread_data.device != "cpu" and thread_data.precision == "autocast":
      thread_data.model.half(); thread_data.modelCS.half(); thread_data.modelFS.half()
      thread_data.model_is_half = True
      thread_data.model_fs_is_half = True
  else:
      thread_data.model_is_half = False
      thread_data.model_fs_is_half = False
  \<close>
  \<^verbatim>\<open>torch.device(None)\<close> raises \<^verbatim>\<open>TypeError\<close>: that is the case of a thread without a
  device.
\<close>

definition cpu :: device where
  "cpu = DevStr ''cpu''"

definition load_model_ckpt ::
  "(string \<Rightarrow> bool) \<Rightarrow> 'l thread_data \<Rightarrow> 'l thread_data \<times> (exn + unit)" where
  "load_model_ckpt file_exists td =
     (if ckpt_file td = None \<or> ckpt_file td = Some [] then
        (td, Inl (ValueError ''Thread ckpt_file is undefined.''))
      else if \<not> file_exists (the (ckpt_file td) @ ''.ckpt'') then
        (td, Inl (FileNotFoundError (''Cannot find '' @ the (ckpt_file td) @ ''.ckpt'')))
      else
        (let ckpt = the (ckpt_file td);
             td1 = (if precision td = []
                    then td\<lparr>precision := (if force_full_precision td then ''full'' else ''autocast'')\<rparr>
                    else td);
             td2 = (if unet_bs td1 = 0 then td1\<lparr>unet_bs := 1\<rparr> else td1);
             td3 = (if device td2 = Some cpu then td2\<lparr>precision := ''full''\<rparr> else td2)
         in case device td3 of
              None \<Rightarrow> (td3, Inl (TypeError ''Device(): argument type must be str, not NoneType''))
            | Some dev \<Rightarrow>
                (let n = Suc (load_count td3);
                     half = (dev \<noteq> cpu \<and> precision td3 = ''autocast'');
                     side = (if dev \<noteq> cpu \<and> \<not> reduced_memory td3 then dev else cpu);
                     vae = (case vae_file td3 of
                              None \<Rightarrow> None
                            | Some v \<Rightarrow> if file_exists (v @ ''.vae.pt'') then Some v else None)
                 in (td3\<lparr>model := Some \<lparr>unet_id = n, unet_ckpt = ckpt, cdevice = dev,
                                          model_unet_bs = unet_bs td3, model_turbo = turbo td3,
                                          model1_at = dev, model2_at = dev, unet_half = half\<rparr>,
                          modelCS := Some \<lparr>comp_id = n, comp_ckpt = ckpt, comp_vae = None,
                                            comp_at = side, comp_half = half\<rparr>,
                          modelFS := Some \<lparr>comp_id = n, comp_ckpt = ckpt, comp_vae = vae,
                                            comp_at = side, comp_half = half\<rparr>,
                          model_is_half := half, model_fs_is_half := half,
                          load_count := n\<rparr>,
                     Inr ()))))"

section \<open>The filter models\<close>

text \<open>
  \<^verbatim>\<open>
  def load_model_gfpgan():
      if thread_data.gfpgan_file is None: raise ValueError(f'Thread gfpgan_file is undefined.')
      if not is_first_cuda_device(thread_data.device):
          #TODO Remove when fixed - A bug with GFPGANer and facexlib needs to be fixed
          #     before use on other devices.
          raise Exception(f'Current device {torch.device(thread_data.device)} is not
                            {torch.device(0)}. Cannot run GFPGANer.')
      model_path = thread_data.gfpgan_file + ".pth"
      thread_data.model_gfpgan = GFPGANer(device=torch.device(thread_data.device),
                                          model_path=model_path, ...)
  \<close>
\<close>

definition load_model_gfpgan :: "'l thread_data \<Rightarrow> 'l thread_data \<times> (exn + unit)" where
  "load_model_gfpgan td =
     (case gfpgan_file td of
        None \<Rightarrow> (td, Inl (ValueError ''Thread gfpgan_file is undefined.''))
      | Some file \<Rightarrow>
          (if \<not> is_first_cuda_device (device td) then
             (td, Inl (Exception (''Current device '' @ (case device td of None \<Rightarrow> ''None'' | Some d \<Rightarrow> str_device d)
                                   @ '' is not cuda:0. Cannot run GFPGANer.'')))
           else
             (td\<lparr>model_gfpgan := Some \<lparr>gfpgan_device = the (device td),
                                        gfpgan_model_path = file @ ''.pth''\<rparr>\<rparr>,
              Inr ())))"

text \<open>
  \<^verbatim>\<open>
  def load_model_real_esrgan():
      if thread_data.real_esrgan_file is None: raise ValueError(...)
      model_path = thread_data.real_esrgan_file + ".pth"
      RealESRGAN_models = {
          'RealESRGAN_x4plus': RRDBNet(..., num_block=23, ...),
          'RealESRGAN_x4plus_anime_6B': RRDBNet(..., num_block=6, ...)
      }
      model_to_use = RealESRGAN_models[thread_data.real_esrgan_file]
      if thread_data.device == 'cpu':
          thread_data.model_real_esrgan = RealESRGANer(device=torch.device(thread_data.device),
              scale=2, model_path=model_path, model=model_to_use, pre_pad=0, half=False)
          thread_data.model_real_esrgan.model.to('cpu')
      else:
          thread_data.model_real_esrgan = RealESRGANer(device=torch.device(thread_data.device),
              scale=2, model_path=model_path, model=model_to_use, pre_pad=0,
              half=thread_data.model_is_half)
      thread_data.model_real_esrgan.model.name = thread_data.real_esrgan_file
  \<close>
  There is no test of the device in this function.
\<close>

definition RealESRGAN_models :: "string \<rightharpoonup> nat" where
  "RealESRGAN_models =
     [''RealESRGAN_x4plus'' \<mapsto> 23, ''RealESRGAN_x4plus_anime_6B'' \<mapsto> 6]"

definition load_model_real_esrgan :: "'l thread_data \<Rightarrow> 'l thread_data \<times> (exn + unit)" where
  "load_model_real_esrgan td =
     (case real_esrgan_file td of
        None \<Rightarrow> (td, Inl (ValueError ''Thread real_esrgan_file is undefined.''))
      | Some file \<Rightarrow>
          (case RealESRGAN_models file of
             None \<Rightarrow> (td, Inl (KeyError file))
           | Some num_block \<Rightarrow>
               (case device td of
                  None \<Rightarrow> (td, Inl (TypeError ''Device(): argument type must be str, not NoneType''))
                | Some dev \<Rightarrow>
                    (if dev = cpu then
                       (td\<lparr>model_real_esrgan :=
                             Some \<lparr>esrgan_device = dev, esrgan_model_path = file @ ''.pth'',
                                   esrgan_num_block = num_block, esrgan_half = False,
                                   esrgan_model_at = cpu, esrgan_name = file\<rparr>\<rparr>,
                        Inr ())
                     else
                       (td\<lparr>model_real_esrgan :=
                             Some \<lparr>esrgan_device = dev, esrgan_model_path = file @ ''.pth'',
                                   esrgan_num_block = num_block, esrgan_half = model_is_half td,
                                   esrgan_model_at = dev, esrgan_name = file\<rparr>\<rparr>,
                        Inr ())))))"

text \<open>
  What the two enhancers and the channel reversal \<^verbatim>\<open>[:,:,::-1]\<close> compute is outside the
  repository: they are the parameters of \<open>apply_filters\<close>.
  \<^verbatim>\<open>
  def apply_filters(filter_name, image_data, model_path=None):
      gc()
      ...
      if filter_name == 'gfpgan':
          if model_path is not None and model_path != thread_data.gfpgan_file:
              thread_data.gfpgan_file = model_path
              load_model_gfpgan()
          elif not thread_data.model_gfpgan:
              load_model_gfpgan()
          if thread_data.model_gfpgan is None: raise Exception('Model "gfpgan" not loaded.')
          _, _, output = thread_data.model_gfpgan.enhance(image_data[:,:,::-1], ...)
          image_data = output[:,:,::-1]
      if filter_name == 'real_esrgan':
          if model_path is not None and model_path != thread_data.real_esrgan_file:
              thread_data.real_esrgan_file = model_path
              load_model_real_esrgan()
          elif not thread_data.model_real_esrgan:
              load_model_real_esrgan()
          if thread_data.model_real_esrgan is None: raise Exception('Model "gfpgan" not loaded.')
          output, _ = thread_data.model_real_esrgan.enhance(image_data[:,:,::-1])
          image_data = output[:,:,::-1]
      return image_data
  \<close>
\<close>

record 'img enhancers =
  gfpgan_enhance :: "gfpgan \<Rightarrow> 'img \<Rightarrow> 'img"
  real_esrgan_enhance :: "esrgan \<Rightarrow> 'img \<Rightarrow> 'img"
  reverse_channels :: "'img \<Rightarrow> 'img"

definition ensure_gfpgan :: "string option \<Rightarrow> 'l thread_data \<Rightarrow> 'l thread_data \<times> (exn + unit)" where
  "ensure_gfpgan model_path td =
     (if model_path \<noteq> None \<and> model_path \<noteq> gfpgan_file td then
        load_model_gfpgan (td\<lparr>gfpgan_file := model_path\<rparr>)
      else if model_gfpgan td = None then load_model_gfpgan td
      else (td, Inr ()))"

definition ensure_real_esrgan :: "string option \<Rightarrow> 'l thread_data \<Rightarrow> 'l thread_data \<times> (exn + unit)" where
  "ensure_real_esrgan model_path td =
     (if model_path \<noteq> None \<and> model_path \<noteq> real_esrgan_file td then
        load_model_real_esrgan (td\<lparr>real_esrgan_file := model_path\<rparr>)
      else if model_real_esrgan td = None then load_model_real_esrgan td
      else (td, Inr ()))"

definition apply_gfpgan ::
  "'img enhancers \<Rightarrow> 'img \<Rightarrow> string option \<Rightarrow> 'l thread_data \<Rightarrow> 'l thread_data \<times> (exn + 'img)" where
  "apply_gfpgan en image_data model_path td =
     (case ensure_gfpgan model_path td of
        (td1, Inl e) \<Rightarrow> (td1, Inl e)
      | (td1, Inr u) \<Rightarrow>
          (case model_gfpgan td1 of
             None \<Rightarrow> (td1, Inl (Exception ''Model gfpgan not loaded.''))
           | Some g \<Rightarrow>
               (td1, Inr (reverse_channels en (gfpgan_enhance en g (reverse_channels en image_data))))))"

definition apply_real_esrgan ::
  "'img enhancers \<Rightarrow> 'img \<Rightarrow> string option \<Rightarrow> 'l thread_data \<Rightarrow> 'l thread_data \<times> (exn + 'img)" where
  "apply_real_esrgan en image_data model_path td =
     (case ensure_real_esrgan model_path td of
        (td1, Inl e) \<Rightarrow> (td1, Inl e)
      | (td1, Inr u) \<Rightarrow>
          (case model_real_esrgan td1 of
             None \<Rightarrow> (td1, Inl (Exception ''Model gfpgan not loaded.''))
           | Some g \<Rightarrow>
               (td1, Inr (reverse_channels en (real_esrgan_enhance en g (reverse_channels en image_data))))))"

definition apply_filters ::
  "'img enhancers \<Rightarrow> string \<Rightarrow> 'img \<Rightarrow> string option \<Rightarrow> 'l thread_data
     \<Rightarrow> 'l thread_data \<times> (exn + 'img)" where
  "apply_filters en filter_name image_data model_path td =
     (case (if filter_name = ''gfpgan'' then apply_gfpgan en image_data model_path td
            else (td, Inr image_data)) of
        (td1, Inl e) \<Rightarrow> (td1, Inl e)
      | (td1, Inr image_data1) \<Rightarrow>
          (if filter_name = ''real_esrgan'' then apply_real_esrgan en image_data1 model_path td1
           else (td1, Inr image_data1)))"

subsection \<open>Two worker contexts, for evaluation\<close>



section \<open>Generation requests and results\<close>

text \<open>
  The request and response classes are declared outside \<^verbatim>\<open>runtime.py\<close>; the records hold
  the attributes that \<^verbatim>\<open>runtime.py\<close> reads and writes.  A Python \<^verbatim>\<open>float\<close> is a rational
  number here, a Python \<^verbatim>\<open>int\<close> an integer.
\<close>

record request =
  prompt :: "string option"
  negative_prompt :: string
  seed :: int
  num_outputs :: int
  width :: int
  height :: int
  num_inference_steps :: int
  guidance_scale :: rat
  prompt_strength :: rat
  sampler :: string
  init_image :: "string option"
  mask :: "string option"
  use_stable_diffusion_model :: string
  use_vae_model :: "string option"
  use_full_precision :: bool
  req_turbo :: bool
  use_face_correction :: "string option"
  use_upscale :: "string option"
  show_only_filtered_image :: bool
  output_format :: string
  save_to_disk_path :: "string option"
  session_id :: string
  stream_progress_updates :: bool
  stream_image_progress :: bool

record response_image =
  ri_data :: string
  ri_seed :: int
  ri_path_abs :: "string option"

text \<open>
  \<^verbatim>\<open>do_mk_img\<close> and \<^verbatim>\<open>mk_img\<close> are generators of JSON strings.  What they yield is a
  list of events: a progress record (\<^verbatim>\<open>step\<close>, \<^verbatim>\<open>total_steps\<close>, and the preview paths
  under \<^verbatim>\<open>output\<close> when there are any; \<^verbatim>\<open>step_time\<close> is a clock reading and is left out),
  the response with its images, or the failure record
  \<^verbatim>\<open>{"status": 'failed', "detail": str(e)}\<close>.
\<close>

datatype event =
    Progress int int "string list option"
  | ResponseJson "response_image list"
  | Failed string

section \<open>Preparing: the checkpoint cache\<close>

text \<open>
  The head of \<^verbatim>\<open>do_mk_img\<close>, lines 481 to 513:
  \<^verbatim>\<open>
  thread_data.stop_processing = False
  res = Response(); res.request = req; res.images = []
  thread_data.temp_images.clear()
  if not os.path.exists(req.use_stable_diffusion_model + '.ckpt'):
      raise FileNotFoundError(f'Cannot find {req.use_stable_diffusion_model}.ckpt')
  needs_model_reload = False
  if not thread_data.model or thread_data.ckpt_file != req.use_stable_diffusion_model
       or thread_data.vae_file != req.use_vae_model:
      thread_data.ckpt_file = req.use_stable_diffusion_model
      thread_data.vae_file = req.use_vae_model
      needs_model_reload = True
  if thread_data.device != 'cpu':
      if (thread_data.precision == 'autocast'
            and (req.use_full_precision or not thread_data.model_is_half)) or \
         (thread_data.precision == 'full'
            and not req.use_full_precision and not thread_data.force_full_precision):
          thread_data.precision = 'full' if req.use_full_precision else 'autocast'
          needs_model_reload = True
  if needs_model_reload:
      unload_models()
      unload_filters()
      load_model_ckpt()
  if thread_data.turbo != req.turbo:
      thread_data.turbo = req.turbo
      thread_data.model.turbo = req.turbo
  \<close>
  A loaded model object is true in a condition; \<^verbatim>\<open>not thread_data.model\<close> holds when the
  attribute is \<^verbatim>\<open>None\<close>.
\<close>

definition ckpt_changed :: "request \<Rightarrow> 'l thread_data \<Rightarrow> bool" where
  "ckpt_changed req td =
     (model td = None \<or> ckpt_file td \<noteq> Some (use_stable_diffusion_model req)
      \<or> vae_file td \<noteq> use_vae_model req)"

definition precision_changed :: "request \<Rightarrow> 'l thread_data \<Rightarrow> bool" where
  "precision_changed req td =
     (device td \<noteq> Some cpu
      \<and> ((precision td = ''autocast'' \<and> (use_full_precision req \<or> \<not> model_is_half td))
         \<or> (precision td = ''full'' \<and> \<not> use_full_precision req \<and> \<not> force_full_precision td)))"

definition set_turbo :: "request \<Rightarrow> 'l thread_data \<Rightarrow> 'l thread_data \<times> (exn + unit)" where
  "set_turbo req td =
     (if turbo td \<noteq> req_turbo req then
        (case model td of
           None \<Rightarrow> (td\<lparr>turbo := req_turbo req\<rparr>, Inl (no_attribute ''turbo''))
         | Some m \<Rightarrow> (td\<lparr>turbo := req_turbo req,
                          model := Some (m\<lparr>model_turbo := req_turbo req\<rparr>)\<rparr>, Inr ()))
      else (td, Inr ()))"

definition select_ckpt :: "request \<Rightarrow> 'l thread_data \<Rightarrow> 'l thread_data" where
  "select_ckpt req td =
     (if ckpt_changed req td
      then td\<lparr>ckpt_file := Some (use_stable_diffusion_model req), vae_file := use_vae_model req\<rparr>
      else td)"

definition select_precision :: "request \<Rightarrow> 'l thread_data \<Rightarrow> 'l thread_data" where
  "select_precision req td =
     (if precision_changed req td
      then td\<lparr>precision := (if use_full_precision req then ''full'' else ''autocast'')\<rparr>
      else td)"

definition prepare_model ::
  "(string \<Rightarrow> bool) \<Rightarrow> request \<Rightarrow> 'l thread_data \<Rightarrow> 'l thread_data \<times> (exn + unit)" where
  "prepare_model file_exists req td =
     (let td0 = td\<lparr>stop_processing := False, temp_images := Map.empty\<rparr> in
      if \<not> file_exists (use_stable_diffusion_model req @ ''.ckpt'') then
        (td0, Inl (FileNotFoundError (''Cannot find '' @ use_stable_diffusion_model req @ ''.ckpt'')))
      else
        (let td1 = select_ckpt req td0;
             td2 = select_precision req td1;
             needs_model_reload = (ckpt_changed req td0 \<or> precision_changed req td1)
         in if needs_model_reload then
              (case load_model_ckpt file_exists (unload_filters (unload_models td2)) of
                 (td3, Inl e) \<Rightarrow> (td3, Inl e)
               | (td3, Inr u) \<Rightarrow> set_turbo req td3)
            else set_turbo req td2))"

subsection \<open>A request and a file system, for evaluation\<close>

definition example_request :: request where
  "example_request =
     \<lparr> prompt = Some ''a photo of a cat'', negative_prompt = '''', seed = 42, num_outputs = 1,
       width = 512, height = 512, num_inference_steps = 20, guidance_scale = 15 / 2,
       prompt_strength = 3 / 4, sampler = ''plms'', init_image = None, mask = None,
       use_stable_diffusion_model = ''models/sd-v1-4'', use_vae_model = None,
       use_full_precision = False, req_turbo = True, use_face_correction = None,
       use_upscale = None, show_only_filtered_image = False, output_format = ''jpeg'',
       save_to_disk_path = None, session_id = ''session'', stream_progress_updates = True,
       stream_image_progress = False \<rparr>"

definition example_files :: "string \<Rightarrow> bool" where
  "example_files path = (path = ''models/sd-v1-4.ckpt'' \<or> path = ''models/custom.ckpt'')"

definition td_gpu0 :: "'l thread_data" where
  "td_gpu0 = thread_init\<lparr>device := Some (DevInt 0), device_name := Some ''NVIDIA GeForce RTX 3060''\<rparr>"

text \<open>
  A worker context is settled for a request when the head of \<^verbatim>\<open>do_mk_img\<close> finds nothing
  to reload: the model is bound, the checkpoint and VAE recorded are the requested ones,
  and the precision test does not fire.
\<close>

definition settled :: "request \<Rightarrow> 'l thread_data \<Rightarrow> bool" where
  "settled req td = (\<not> ckpt_changed req td \<and> \<not> precision_changed req td)"

section \<open>Conditioning\<close>

text \<open>
  Lines 589 to 606 of \<^verbatim>\<open>do_mk_img\<close>:
  \<^verbatim>\<open>
  uc = None
  if req.guidance_scale != 1.0:
      uc = thread_data.modelCS.get_learned_conditioning(batch_size * [req.negative_prompt])
  if isinstance(prompts, tuple):
      prompts = list(prompts)
  subprompts, weights = split_weighted_subprompts(prompts[0])
  if len(subprompts) > 1:
      c = torch.zeros_like(uc)
      totalWeight = sum(weights)
      # normalize each "sub prompt" and add it
      for i in range(len(subprompts)):
          weight = weights[i]
          # if not skip_normalize:
          weight = weight / totalWeight
          c = torch.add(c, thread_data.modelCS.get_learned_conditioning(subprompts[i]), alpha=weight)
  else:
      c = thread_data.modelCS.get_learned_conditioning(prompts)
  \<close>
  The prompt parser (\<^verbatim>\<open>optimizedSD.optimUtils\<close>), the conditioner network and the tensor
  operations of \<^verbatim>\<open>torch\<close> are parameters.  \<^verbatim>\<open>get_learned_conditioning\<close> is called with a
  list of prompts and with a single sub-prompt string; its argument is one or the other.
  The weights are Python floats; their sum and the quotients \<^verbatim>\<open>weight / totalWeight\<close> are
  computed here in exact rational arithmetic, where binary64 would round them.
  \<^verbatim>\<open>torch.zeros_like(None)\<close> raises \<^verbatim>\<open>TypeError\<close>; a float division by zero raises
  \<^verbatim>\<open>ZeroDivisionError\<close>.  The handle \<^verbatim>\<open>thread_data.modelCS\<close> is the argument \<open>cs\<close>;
  \<open>learned_conditioning\<close> is the method call on it.
\<close>

datatype prompt_arg = PromptList "string list" | PromptStr string

record 'c conditioner =
  split_weighted_subprompts :: "string \<Rightarrow> string list \<times> rat list"
  get_learned_conditioning :: "prompt_arg \<Rightarrow> 'c"
  zeros_like :: "'c \<Rightarrow> 'c"
  torch_add :: "'c \<Rightarrow> 'c \<Rightarrow> rat \<Rightarrow> 'c"

definition learned_conditioning ::
  "'c conditioner \<Rightarrow> component option \<Rightarrow> prompt_arg \<Rightarrow> exn + 'c" where
  "learned_conditioning cn cs arg =
     (case cs of
        None \<Rightarrow> Inl (no_attribute ''get_learned_conditioning'')
      | Some m \<Rightarrow> Inr (get_learned_conditioning cn arg))"

text \<open>The loop over the sub-prompts: the \<open>i\<close>-th sub-prompt with \<^verbatim>\<open>weights[i]\<close>.\<close>

fun blend ::
  "'c conditioner \<Rightarrow> component option \<Rightarrow> rat \<Rightarrow> string list \<Rightarrow> rat list \<Rightarrow> 'c \<Rightarrow> exn + 'c" where
  "blend cn cs totalWeight [] weights c = Inr c"
| "blend cn cs totalWeight (subprompt # subprompts) [] c =
     Inl (IndexError ''list index out of range'')"
| "blend cn cs totalWeight (subprompt # subprompts) (weight # weights) c =
     (if totalWeight = 0 then Inl (ZeroDivisionError ''float division by zero'')
      else case learned_conditioning cn cs (PromptStr subprompt) of
             Inl e \<Rightarrow> Inl e
           | Inr v \<Rightarrow>
               blend cn cs totalWeight subprompts weights (torch_add cn c v (weight / totalWeight)))"

definition conditioning ::
  "'c conditioner \<Rightarrow> component option \<Rightarrow> request \<Rightarrow> string list \<Rightarrow> exn + ('c \<times> 'c option)" where
  "conditioning cn cs req prompts =
     (case (if guidance_scale req \<noteq> 1
            then map_sum id Some
                   (learned_conditioning cn cs
                      (PromptList (replicate (nat (num_outputs req)) (negative_prompt req))))
            else Inr None) of
        Inl e \<Rightarrow> Inl e
      | Inr uc \<Rightarrow>
          (case prompts of
             [] \<Rightarrow> Inl (IndexError ''list index out of range'')
           | prompt0 # rest \<Rightarrow>
               (case split_weighted_subprompts cn prompt0 of
                  (subprompts, weights) \<Rightarrow>
                    (if length subprompts > 1 then
                       (case uc of
                          None \<Rightarrow>
                            Inl (TypeError ''zeros_like(): argument input must be Tensor, not NoneType'')
                        | Some u \<Rightarrow>
                            (case blend cn cs (sum_list weights) subprompts weights
                                    (zeros_like cn u) of
                               Inl e \<Rightarrow> Inl e
                             | Inr c \<Rightarrow> Inr (c, uc)))
                     else (case learned_conditioning cn cs (PromptList prompts) of
                             Inl e \<Rightarrow> Inl e
                           | Inr c \<Rightarrow> Inr (c, uc))))))"

subsection \<open>A conditioner on vectors, for evaluation\<close>

text \<open>
  A conditioning is a vector of two rationals; a prompt is embedded by its length.
  The parser splits at the first \<open>|\<close> and reads the weights \<open>:2\<close> and \<open>:1\<close> (default);
  the empty prompt has no sub-prompt.  \<open>loaded_cs\<close> is the handle of a loaded conditioner.
\<close>

fun split_bar :: "string \<Rightarrow> string \<Rightarrow> string list" where
  "split_bar acc [] = (if acc = [] then [] else [rev acc])"
| "split_bar acc (ch # s) = (if ch = CHR ''|'' then rev acc # split_bar [] s else split_bar (ch # acc) s)"

definition weight_of :: "string \<Rightarrow> string \<times> rat" where
  "weight_of s = (if suffix '':2'' s then (take (length s - 2) s, 2) else (s, 1))"

definition loaded_cs :: "component option" where
  "loaded_cs = Some \<lparr>comp_id = 1, comp_ckpt = ''models/sd-v1-4'', comp_vae = None,
                      comp_at = cpu, comp_half = True\<rparr>"

definition vec_conditioner :: "rat list conditioner" where
  "vec_conditioner =
     \<lparr> split_weighted_subprompts = (\<lambda>p. (map (fst \<circ> weight_of) (split_bar [] p),
                                            map (snd \<circ> weight_of) (split_bar [] p))),
       get_learned_conditioning =
         (\<lambda>a. case a of PromptList ps \<Rightarrow> [of_nat (length (concat ps)), 1]
                      | PromptStr s \<Rightarrow> [of_nat (length s), 1]),
       zeros_like = map (\<lambda>x. 0),
       torch_add = (\<lambda>c x alpha. map2 (\<lambda>a b. a + alpha * b) c x) \<rparr>"

section \<open>Python floats\<close>

text \<open>
  A Python \<^verbatim>\<open>float\<close> is a binary64 number; its value is a rational.  Where a result of
  the runtime depends on how binary64 rounds, the rounding is modelled: \<open>b64_round\<close> is
  rounding to nearest with ties to even at 53 significant bits, with the subnormal
  exponent bound \<open>-1074\<close>.  \<open>floor_log2 x\<close> is the exponent of a positive \<open>x\<close>: the \<open>e\<close>
  with \<open>2\<^sup>e \<le> x < 2\<^sup>e\<^sup>+\<^sup>1\<close>.
\<close>

definition floor_log2 :: "rat \<Rightarrow> int" where
  "floor_log2 x = (if 1 \<le> x then bitlen \<lfloor>x\<rfloor> - 1 else - bitlen (\<lceil>1 / x\<rceil> - 1))"

definition round_half_even :: "rat \<Rightarrow> int" where
  "round_half_even y =
     (let f = \<lfloor>y\<rfloor>; r = y - of_int f
      in if r < 1 / 2 then f else if 1 / 2 < r then f + 1 else if even f then f else f + 1)"

definition b64_round :: "rat \<Rightarrow> rat" where
  "b64_round x =
     (if x = 0 then 0
      else (let q = max (floor_log2 \<bar>x\<bar> - 52) (- 1074)
            in sgn x * of_int (round_half_even (\<bar>x\<bar> / 2 powi q)) * 2 powi q))"

text \<open>
  \<^verbatim>\<open>float * int\<close> converts the integer to a float first (\<^verbatim>\<open>OverflowError\<close> when it is
  too large) and multiplies in binary64; \<^verbatim>\<open>int(x)\<close> truncates a float toward zero.
\<close>

definition float_of_int :: "int \<Rightarrow> exn + rat" where
  "float_of_int n =
     (if 2 ^ 1024 \<le> \<bar>b64_round (of_int n)\<bar>
      then Inl (OverflowError ''int too large to convert to float'')
      else Inr (b64_round (of_int n)))"

definition float_mul :: "rat \<Rightarrow> rat \<Rightarrow> rat" where
  "float_mul x y = b64_round (x * y)"

definition int_of_float :: "rat \<Rightarrow> int" where
  "int_of_float x = (if 0 \<le> x then \<lfloor>x\<rfloor> else \<lceil>x\<rceil>)"

section \<open>The partial step count of image-to-image\<close>

text \<open>
  Lines 572 and 573 of \<^verbatim>\<open>do_mk_img\<close>:
  \<^verbatim>\<open>
  assert 0. <= req.prompt_strength <= 1., 'can only work with strength in [0.0, 1.0]'
  t_enc = int(req.prompt_strength * req.num_inference_steps)
  \<close>
\<close>

definition compute_t_enc :: "request \<Rightarrow> exn + int" where
  "compute_t_enc req =
     (if 0 \<le> prompt_strength req \<and> prompt_strength req \<le> 1 then
        (case float_of_int (num_inference_steps req) of
           Inl e \<Rightarrow> Inl e
         | Inr steps \<Rightarrow> Inr (int_of_float (float_mul (prompt_strength req) steps)))
      else Inl (AssertionError ''can only work with strength in [0.0, 1.0]''))"

section \<open>The generation pipeline\<close>

text \<open>
  What \<^verbatim>\<open>do_mk_img\<close> calls outside the repository is the record \<open>environment\<close>:
  the file system, the conditioner, PIL and \<^verbatim>\<open>base64\<close>, the image preprocessing of
  \<^verbatim>\<open>load_img\<close> and \<^verbatim>\<open>load_mask\<close>, the autoencoder, the sampler, the filters, the clock
  (\<open>img_id\<close> is the identifier derived from \<^verbatim>\<open>time.time() + i\<close>), \<^verbatim>\<open>os.path.join\<close> and
  the reading of \<^verbatim>\<open>torch.cuda.memory_allocated\<close>.

  The sampler \<^verbatim>\<open>thread_data.model.sample\<close> is a generator that calls the per-step
  callback \<^verbatim>\<open>img_callback(x_samples, i)\<close>.  Its run is the list of what it does: a call
  of the callback with a batch of latents and a step index, or an exception of its own.
  A run that ends without an exception returns.  The callback is a generator itself;
  an exception it raises leaves the sampler.

  The consumer of the generator sets \<^verbatim>\<open>thread_data.stop_processing\<close> while the generator
  is suspended at a \<^verbatim>\<open>yield\<close>: \<open>stop_requested env k\<close> says that it does so at the
  \<open>k\<close>-th progress event of the call, counted from 0.
\<close>

datatype 'l sampler_action = ImgCallback 'l int | SamplerRaise exn

record ('c, 'z) sample_args =
  sa_S :: int
  sa_conditioning :: 'c
  sa_x0 :: "'z option"
  sa_shape :: "int list option"
  sa_seed :: "int option"
  sa_scale :: rat
  sa_uc :: "'c option"
  sa_x_T :: "'z option"
  sa_mask :: "'z option"
  sa_sampler :: string

record ('c, 'z, 'x, 'img) environment =
  os_path_exists :: "string \<Rightarrow> bool"
  cond_stage :: "'c conditioner"
  image_codec :: "'img codec"
  preprocess_image :: "'img \<Rightarrow> int \<Rightarrow> int \<Rightarrow> 'z"
  preprocess_mask :: "'img \<Rightarrow> 'z \<Rightarrow> 'z"
  encode_first_stage :: "'z \<Rightarrow> int \<Rightarrow> 'z"
  stochastic_encode :: "'z \<Rightarrow> int \<Rightarrow> int \<Rightarrow> int \<Rightarrow> 'z"
  sample :: "('c, 'z) sample_args \<Rightarrow> 'x list sampler_action list"
  decode_first_stage :: "'x \<Rightarrow> 'img"
  filter_models :: "'img enhancers"
  stop_requested :: "nat \<Rightarrow> bool"
  img_id :: "nat \<Rightarrow> string"
  path_join :: "string \<Rightarrow> string \<Rightarrow> string"
  memory_allocated :: int

subsection \<open>Moving components between host and accelerator\<close>

text \<open>
  \<^verbatim>\<open>model.to(thread_data.device)\<close> and
  \<^verbatim>\<open>
  def wait_model_move_to(model, target_device):
      if thread_data.device == target_device: return
      start_mem = torch.cuda.memory_allocated(thread_data.device) / 1e6
      if start_mem <= 0: return
      model.to(target_device)
      (poll torch.cuda.memory_allocated until it stops decreasing)
  \<close>
  The polling loop ends when a reading is not below the one before it.  The handle
  \<^verbatim>\<open>model\<close> may be \<^verbatim>\<open>None\<close>: the two early returns never look at it, and
  \<^verbatim>\<open>model.to\<close> raises \<^verbatim>\<open>AttributeError\<close> then.  The function returns the handle after
  the move; every call in the source has the target \<^verbatim>\<open>'cpu'\<close>.
\<close>

definition to_thread_device :: "'l thread_data \<Rightarrow> component \<Rightarrow> component" where
  "to_thread_device td m = (case device td of None \<Rightarrow> m | Some d \<Rightarrow> m\<lparr>comp_at := d\<rparr>)"

definition wait_model_move_to ::
  "('c, 'z, 'x, 'img) environment \<Rightarrow> 'l thread_data \<Rightarrow> component option \<Rightarrow> device
     \<Rightarrow> exn + component option" where
  "wait_model_move_to env td m target_device =
     (if device td = Some target_device then Inr m
      else if memory_allocated env \<le> 0 then Inr m
      else case m of
             None \<Rightarrow> Inl (no_attribute ''to'')
           | Some c \<Rightarrow> Inr (Some (c\<lparr>comp_at := target_device\<rparr>)))"

subsection \<open>Image-to-image: the source image, the mask and the step count\<close>

text \<open>
  Lines 542 to 574.  \<^verbatim>\<open>load_img\<close> and \<^verbatim>\<open>load_mask\<close> decode the data URI with
  \<^verbatim>\<open>base64_str_to_img\<close>; the resizing and the conversion to a tensor are PIL and numpy.
  \<^verbatim>\<open>
  if req.init_image is None:
      handler = _txt2img
      init_latent = None
      t_enc = None
  else:
      handler = _img2img
      init_image = load_img(req.init_image, req.width, req.height)
      init_image = init_image.to(thread_data.device)
      ...
      thread_data.modelFS.to(thread_data.device)
      init_image = repeat(init_image, '1 ... -> b ...', b=batch_size)
      init_latent = thread_data.modelFS.get_first_stage_encoding(
                        thread_data.modelFS.encode_first_stage(init_image))
      if req.mask is not None:
          mask = load_mask(req.mask, req.width, req.height,
                           init_latent.shape[2], init_latent.shape[3], True).to(thread_data.device)
          ...
      wait_model_move_to(thread_data.modelFS, 'cpu')
      assert 0. <= req.prompt_strength <= 1., 'can only work with strength in [0.0, 1.0]'
      t_enc = int(req.prompt_strength * req.num_inference_steps)
  \<close>
\<close>

definition load_img :: "('c, 'z, 'x, 'img) environment \<Rightarrow> string \<Rightarrow> int \<Rightarrow> int \<Rightarrow> exn + 'z" where
  "load_img env img_str w0 h0 =
     (case base64_str_to_img (image_codec env) img_str of
        Inl e \<Rightarrow> Inl e
      | Inr pil_image \<Rightarrow> Inr (preprocess_image env pil_image w0 h0))"

definition load_mask :: "('c, 'z, 'x, 'img) environment \<Rightarrow> string \<Rightarrow> 'z \<Rightarrow> exn + 'z" where
  "load_mask env mask_str init_latent =
     (case base64_str_to_img (image_codec env) mask_str of
        Inl e \<Rightarrow> Inl e
      | Inr pil_image \<Rightarrow> Inr (preprocess_mask env pil_image init_latent))"

record 'z img2img_input =
  init_latent :: 'z
  latent_mask :: "'z option"
  t_enc :: int

definition prepare_img2img ::
  "('c, 'z, 'x, 'img) environment \<Rightarrow> request \<Rightarrow> 'l thread_data
     \<Rightarrow> 'l thread_data \<times> (exn + 'z img2img_input option)" where
  "prepare_img2img env req td =
     (case init_image req of
        None \<Rightarrow> (td, Inr None)
      | Some img_str \<Rightarrow>
          (case load_img env img_str (width req) (height req) of
             Inl e \<Rightarrow> (td, Inl e)
           | Inr init_tensor \<Rightarrow>
               (case modelFS td of
                  None \<Rightarrow> (td, Inl (no_attribute ''to''))
                | Some fs \<Rightarrow>
                    (let td1 = td\<lparr>modelFS := Some (to_thread_device td fs)\<rparr>;
                         latent = encode_first_stage env init_tensor (num_outputs req)
                     in case (case mask req of
                                None \<Rightarrow> Inr None
                              | Some mask_str \<Rightarrow> map_sum id Some (load_mask env mask_str latent)) of
                          Inl e \<Rightarrow> (td1, Inl e)
                        | Inr m \<Rightarrow>
                            (case wait_model_move_to env td1 (modelFS td1) cpu of
                               Inl e \<Rightarrow> (td1, Inl e)
                             | Inr fs1 \<Rightarrow>
                                 (let td2 = td1\<lparr>modelFS := fs1\<rparr>
                                  in case compute_t_enc req of
                                       Inl e \<Rightarrow> (td2, Inl e)
                                     | Inr t \<Rightarrow>
                                         (td2, Inr (Some \<lparr>init_latent = latent, latent_mask = m,
                                                          t_enc = t\<rparr>))))))))"

subsection \<open>The arguments of the sampler\<close>

text \<open>
  \<^verbatim>\<open>
  def _txt2img(opt_W, opt_H, opt_n_samples, opt_ddim_steps, opt_scale, start_code, opt_C, opt_f,
               opt_ddim_eta, c, uc, opt_seed, img_callback, mask, sampler_name):
      shape = [opt_n_samples, opt_C, opt_H // opt_f, opt_W // opt_f]
      wait_model_move_to(thread_data.modelCS, 'cpu')
      if sampler_name == 'ddim':
          thread_data.model.make_schedule(ddim_num_steps=opt_ddim_steps, ...)
      samples_ddim = thread_data.model.sample(S=opt_ddim_steps, conditioning=c, seed=opt_seed,
          shape=shape, verbose=False, unconditional_guidance_scale=opt_scale,
          unconditional_conditioning=uc, eta=opt_ddim_eta, x_T=start_code,
          img_callback=img_callback, mask=mask, sampler = sampler_name)
      yield from samples_ddim

  def _img2img(init_latent, t_enc, batch_size, opt_scale, c, uc, opt_ddim_steps, opt_ddim_eta,
               opt_seed, img_callback, mask):
      z_enc = thread_data.model.stochastic_encode(init_latent,
                  torch.tensor([t_enc] * batch_size).to(thread_data.device),
                  opt_seed, opt_ddim_eta, opt_ddim_steps)
      x_T = None if mask is None else init_latent
      samples_ddim = thread_data.model.sample(t_enc, c, z_enc,
          unconditional_guidance_scale=opt_scale, unconditional_conditioning=uc,
          img_callback=img_callback, mask=mask, x_T=x_T, sampler = 'ddim')
      yield from samples_ddim
  \<close>
  \<^verbatim>\<open>do_mk_img\<close> calls \<^verbatim>\<open>_txt2img\<close> with \<^verbatim>\<open>opt_C = 4\<close>, \<^verbatim>\<open>opt_f = 8\<close> and
  \<^verbatim>\<open>start_code = None\<close>.
\<close>

definition txt2img_args :: "request \<Rightarrow> 'c \<Rightarrow> 'c option \<Rightarrow> ('c, 'z) sample_args" where
  "txt2img_args req c uc =
     \<lparr> sa_S = num_inference_steps req, sa_conditioning = c, sa_x0 = None,
       sa_shape = Some [num_outputs req, 4, height req div 8, width req div 8],
       sa_seed = Some (seed req), sa_scale = guidance_scale req, sa_uc = uc,
       sa_x_T = None, sa_mask = None, sa_sampler = sampler req \<rparr>"

definition img2img_args ::
  "('c, 'z, 'x, 'img) environment \<Rightarrow> request \<Rightarrow> 'c \<Rightarrow> 'c option \<Rightarrow> 'z img2img_input
     \<Rightarrow> ('c, 'z) sample_args" where
  "img2img_args env req c uc inp =
     \<lparr> sa_S = t_enc inp, sa_conditioning = c,
       sa_x0 = Some (stochastic_encode env (init_latent inp) (t_enc inp) (seed req)
                      (num_inference_steps req)),
       sa_shape = None, sa_seed = None, sa_scale = guidance_scale req, sa_uc = uc,
       sa_x_T = (if latent_mask inp = None then None else Some (init_latent inp)),
       sa_mask = latent_mask inp, sa_sampler = ''ddim'' \<rparr>"

subsection \<open>The per-step callback\<close>

text \<open>
  \<^verbatim>\<open>
  def update_temp_img(req, x_samples):
      partial_images = []
      for i in range(req.num_outputs):
          x_sample_ddim = thread_data.modelFS.decode_first_stage(x_samples[i].unsqueeze(0))
          ...
          img = Image.fromarray(x_sample)
          buf = BytesIO()
          img.save(buf, format='JPEG')
          ...
          thread_data.temp_images[str(req.session_id) + '/' + str(i)] = buf
          partial_images.append({'path': f'/image/tmp/{req.session_id}/{i}'})
      return partial_images
  \<close>
  A batch of latents is the list of its elements; \<^verbatim>\<open>x_samples[i]\<close> beyond the batch
  raises \<^verbatim>\<open>IndexError\<close>.  The method \<^verbatim>\<open>thread_data.modelFS.decode_first_stage\<close> is
  looked up before its argument is evaluated.
\<close>

fun update_temp_loop ::
  "('c, 'z, 'x, 'img) environment \<Rightarrow> request \<Rightarrow> 'x list \<Rightarrow> nat list \<Rightarrow> 'l thread_data
     \<Rightarrow> string list \<Rightarrow> 'l thread_data \<times> (exn + string list)" where
  "update_temp_loop env req x_samples [] td partial_images = (td, Inr partial_images)"
| "update_temp_loop env req x_samples (i # rest) td partial_images =
     (case modelFS td of
        None \<Rightarrow> (td, Inl (no_attribute ''decode_first_stage''))
      | Some fs \<Rightarrow>
          (if i < length x_samples then
             (case image_save (image_codec env) (decode_first_stage env (x_samples ! i)) ''JPEG'' of
                Inl e \<Rightarrow> (td, Inl e)
              | Inr buf \<Rightarrow>
                  update_temp_loop env req x_samples rest
                    (td\<lparr>temp_images := (temp_images td)(session_id req @ ''/'' @ str_nat i \<mapsto> buf)\<rparr>)
                    (partial_images @ [''/image/tmp/'' @ session_id req @ ''/'' @ str_nat i]))
           else (td, Inl (IndexError ''index out of range''))))"

definition update_temp_img ::
  "('c, 'z, 'x, 'img) environment \<Rightarrow> request \<Rightarrow> 'x list \<Rightarrow> 'l thread_data
     \<Rightarrow> 'l thread_data \<times> (exn + string list)" where
  "update_temp_img env req x_samples td =
     update_temp_loop env req x_samples [0 ..< nat (num_outputs req)] td []"

text \<open>
  The callback that \<^verbatim>\<open>get_image_progress_generator\<close> builds for a request with
  \<^verbatim>\<open>stream_progress_updates\<close>, and the sampler's run with it:
  \<^verbatim>\<open>
  thread_data.partial_x_samples = None
  def img_callback(x_samples, i):
      thread_data.partial_x_samples = x_samples
      progress = {"step": i, "step_time": step_time}
      if extra_props is not None:
          progress.update(extra_props)
      if req.stream_image_progress and i % 5 == 0:
          progress['output'] = update_temp_img(req, x_samples)
      yield json.dumps(progress)
      if thread_data.stop_processing:
          raise UserInitiatedStop("User requested that we stop processing")
  \<close>
  \<open>record_progress\<close> is the callback up to its \<^verbatim>\<open>yield\<close>; \<open>run_sampler\<close> returns the
  context, the events yielded, and the exception that ended the run, if one did.
\<close>

definition record_progress ::
  "('c, 'z, 'x, 'img) environment \<Rightarrow> request \<Rightarrow> 'x list \<Rightarrow> int \<Rightarrow> 'x list thread_data
     \<Rightarrow> 'x list thread_data \<times> (exn + string list option)" where
  "record_progress env req x_samples i td =
     (if stream_image_progress req \<and> i mod 5 = 0
      then (case update_temp_img env req x_samples (td\<lparr>partial_x_samples := Some (Some x_samples)\<rparr>) of
              (td1, Inl e) \<Rightarrow> (td1, Inl e)
            | (td1, Inr paths) \<Rightarrow> (td1, Inr (Some paths)))
      else (td\<lparr>partial_x_samples := Some (Some x_samples)\<rparr>, Inr None))"

fun run_sampler ::
  "('c, 'z, 'x, 'img) environment \<Rightarrow> request \<Rightarrow> int \<Rightarrow> 'x list sampler_action list
     \<Rightarrow> 'x list thread_data \<Rightarrow> event list
     \<Rightarrow> 'x list thread_data \<times> event list \<times> exn option" where
  "run_sampler env req n_steps [] td events = (td, events, None)"
| "run_sampler env req n_steps (SamplerRaise e # rest) td events = (td, events, Some e)"
| "run_sampler env req n_steps (ImgCallback x_samples i # rest) td events =
     (case record_progress env req x_samples i td of
        (td1, Inl e) \<Rightarrow> (td1, events, Some e)
      | (td1, Inr output) \<Rightarrow>
          (if stop_requested env (length events) \<or> stop_processing td1
           then (td1\<lparr>stop_processing := True\<rparr>, events @ [Progress i n_steps output],
                 Some (UserInitiatedStop ''User requested that we stop processing''))
           else run_sampler env req n_steps rest td1 (events @ [Progress i n_steps output])))"

subsection \<open>From the sampler's result to the latents to decode\<close>

text \<open>
  Lines 615 to 635.  \<^verbatim>\<open>x_samples\<close> is first the generator object that the handler
  returned; with \<^verbatim>\<open>stream_progress_updates\<close> the generator is run, and the latents
  are what the callback recorded last.
  \<^verbatim>\<open>
  try:
      if handler == _txt2img:
          x_samples = _txt2img(...)
      else:
          x_samples = _img2img(...)
      if req.stream_progress_updates:
          yield from x_samples
      if hasattr(thread_data, 'partial_x_samples'):
          if thread_data.partial_x_samples is not None:
              x_samples = thread_data.partial_x_samples
          del thread_data.partial_x_samples
  except UserInitiatedStop:
      if not hasattr(thread_data, 'partial_x_samples'):
          continue
      if thread_data.partial_x_samples is None:
          del thread_data.partial_x_samples
          continue
      x_samples = thread_data.partial_x_samples
      del thread_data.partial_x_samples
  \<close>
  The result \<open>None\<close> is the \<^verbatim>\<open>continue\<close>: the rest of the loop body is skipped.
\<close>

datatype 'l x_samples = Generator | Latents 'l

definition collect_samples ::
  "'l thread_data \<Rightarrow> exn option \<Rightarrow> 'l thread_data \<times> (exn + 'l x_samples option)" where
  "collect_samples td raised =
     (case raised of
        None \<Rightarrow>
          (case partial_x_samples td of
             None \<Rightarrow> (td, Inr (Some Generator))
           | Some None \<Rightarrow> (td\<lparr>partial_x_samples := None\<rparr>, Inr (Some Generator))
           | Some (Some x) \<Rightarrow> (td\<lparr>partial_x_samples := None\<rparr>, Inr (Some (Latents x))))
      | Some (UserInitiatedStop m) \<Rightarrow>
          (case partial_x_samples td of
             None \<Rightarrow> (td, Inr None)
           | Some None \<Rightarrow> (td\<lparr>partial_x_samples := None\<rparr>, Inr None)
           | Some (Some x) \<Rightarrow> (td\<lparr>partial_x_samples := None\<rparr>, Inr (Some (Latents x))))
      | Some e \<Rightarrow> (td, Inl e))"

text \<open>
  The run of the handler.  The body of \<^verbatim>\<open>_txt2img\<close> moves the conditioner to the host
  before it samples; the body of a generator runs only when the generator is iterated,
  that is with \<^verbatim>\<open>stream_progress_updates\<close>.  The first use of \<^verbatim>\<open>thread_data.model\<close> is
  \<^verbatim>\<open>make_schedule\<close> for the sampler \<^verbatim>\<open>'ddim'\<close> and \<^verbatim>\<open>sample\<close> for another one in
  \<^verbatim>\<open>_txt2img\<close>, and \<^verbatim>\<open>stochastic_encode\<close> in \<^verbatim>\<open>_img2img\<close>.
\<close>

definition run_handler ::
  "('c, 'z, 'x, 'img) environment \<Rightarrow> request \<Rightarrow> 'c \<Rightarrow> 'c option \<Rightarrow> 'z img2img_input option
     \<Rightarrow> 'x list thread_data \<Rightarrow> 'x list thread_data \<times> event list \<times> exn option" where
  "run_handler env req c uc inp td =
     (if stream_progress_updates req then
        (let td0 = td\<lparr>partial_x_samples := Some None\<rparr> in
         case inp of
           None \<Rightarrow>
             (case wait_model_move_to env td0 (modelCS td0) cpu of
                Inl e \<Rightarrow> (td0, [], Some e)
              | Inr cs \<Rightarrow>
                  (let td1 = td0\<lparr>modelCS := cs\<rparr> in
                   case model td1 of
                     None \<Rightarrow>
                       (td1, [],
                        Some (no_attribute
                                (if sampler req = ''ddim'' then ''make_schedule'' else ''sample'')))
                   | Some m \<Rightarrow>
                       run_sampler env req (num_inference_steps req)
                         (sample env (txt2img_args req c uc)) td1 []))
         | Some i2i \<Rightarrow>
             (case model td0 of
                None \<Rightarrow> (td0, [], Some (no_attribute ''stochastic_encode''))
              | Some m \<Rightarrow>
                  run_sampler env req (t_enc i2i) (sample env (img2img_args env req c uc i2i))
                    td0 []))
      else (td, [], None))"

subsection \<open>Decoding\<close>

text \<open>
  \<^verbatim>\<open>
  img_data = [None] * batch_size
  for i in range(batch_size):
      x_samples_ddim = thread_data.modelFS.decode_first_stage(x_samples[i].unsqueeze(0))
      ...
      img_data[i] = x_sample
  del x_samples, x_samples_ddim, x_sample
  \<close>
  The method of \<^verbatim>\<open>thread_data.modelFS\<close> is looked up first.
  A generator object has no subscript: \<^verbatim>\<open>x_samples[i]\<close> raises \<^verbatim>\<open>TypeError\<close>.  With an
  empty range the loop assigns nothing and the \<^verbatim>\<open>del\<close> of the unbound
  \<^verbatim>\<open>x_samples_ddim\<close> raises \<^verbatim>\<open>UnboundLocalError\<close>, a \<^verbatim>\<open>NameError\<close>.
\<close>

definition decode_images ::
  "('c, 'z, 'x, 'img) environment \<Rightarrow> 'l thread_data \<Rightarrow> int \<Rightarrow> 'x list x_samples
     \<Rightarrow> exn + 'img list" where
  "decode_images env td batch_size xs =
     (if batch_size \<le> 0 then
        Inl (NameError ''local variable x_samples_ddim referenced before assignment'')
      else case modelFS td of
             None \<Rightarrow> Inl (no_attribute ''decode_first_stage'')
           | Some fs \<Rightarrow>
               (case xs of
                  Generator \<Rightarrow> Inl (TypeError ''generator object is not subscriptable'')
                | Latents x \<Rightarrow>
                    (if nat batch_size \<le> length x
                     then Inr (map (decode_first_stage env) (take (nat batch_size) x))
                     else Inl (IndexError ''index out of range''))))"

subsection \<open>Saving and filtering\<close>

text \<open>
  \<^verbatim>\<open>
  filename_regex = re.compile('[^a-zA-Z0-9]')

  def get_base_path(disk_path, session_id, prompt, img_id, ext, suffix=None):
      if disk_path is None: return None
      if session_id is None: return None
      if ext is None: raise Exception('Missing ext')
      session_out_path = os.path.join(disk_path, session_id)
      os.makedirs(session_out_path, exist_ok=True)
      prompt_flattened = filename_regex.sub('_', prompt)[:50]
      if suffix is not None:
          return os.path.join(session_out_path, f"{prompt_flattened}_{img_id}_{suffix}.{ext}")
      return os.path.join(session_out_path, f"{prompt_flattened}_{img_id}.{ext}")
  \<close>
  \<^verbatim>\<open>do_mk_img\<close> calls it with a disk path, a session and an extension that are strings.
  Writing the files (\<^verbatim>\<open>save_image\<close>, \<^verbatim>\<open>save_metadata\<close>) catches every exception and
  leaves the response as it is; the files are not part of the model, and the directory
  creation of \<^verbatim>\<open>os.makedirs\<close> is taken to succeed.
\<close>

definition is_alnum :: "char \<Rightarrow> bool" where
  "is_alnum ch =
     (let n = (of_char ch :: nat)
      in (48 \<le> n \<and> n \<le> 57) \<or> (65 \<le> n \<and> n \<le> 90) \<or> (97 \<le> n \<and> n \<le> 122))"

definition get_base_path ::
  "('c, 'z, 'x, 'img) environment \<Rightarrow> string \<Rightarrow> string \<Rightarrow> string \<Rightarrow> string \<Rightarrow> string
     \<Rightarrow> string option \<Rightarrow> string" where
  "get_base_path env disk_path session prompt_text image_id ext name_suffix =
     (let session_out_path = path_join env disk_path session;
          prompt_flattened = take 50 (map (\<lambda>ch. if is_alnum ch then ch else CHR ''_'') prompt_text)
      in case name_suffix of
           Some sfx \<Rightarrow>
             path_join env session_out_path
               (prompt_flattened @ ''_'' @ image_id @ ''_'' @ sfx @ ''.'' @ ext)
         | None \<Rightarrow>
             path_join env session_out_path (prompt_flattened @ ''_'' @ image_id @ ''.'' @ ext))"

text \<open>
  The body of the loop \<^verbatim>\<open>for i in range(batch_size)\<close> (lines 652 to 700):
  \<^verbatim>\<open>
  img = Image.fromarray(img_data[i])
  img_id = ...
  has_filters = (req.use_face_correction is not None
                   and req.use_face_correction.startswith('GFPGAN')) or \
                (req.use_upscale is not None and req.use_upscale.startswith('RealESRGAN'))
  return_orig_img = not has_filters or not req.show_only_filtered_image
  if thread_data.stop_processing:
      return_orig_img = True
  if req.save_to_disk_path is not None:
      if return_orig_img:
          img_out_path = get_base_path(req.save_to_disk_path, req.session_id, prompts[0],
                                       img_id, req.output_format)
          save_image(img, img_out_path)
      meta_out_path = get_base_path(..., 'txt')
      save_metadata(meta_out_path, req, prompts[0], opt_seed)
  if return_orig_img:
      img_str = img_to_base64_str(img, req.output_format)
      res_image_orig = ResponseImage(data=img_str, seed=opt_seed)
      res.images.append(res_image_orig)
      if req.save_to_disk_path is not None:
          res_image_orig.path_abs = img_out_path
  del img
  if has_filters and not thread_data.stop_processing:
      filters_applied = []
      if req.use_face_correction:
          img_data[i] = apply_filters('gfpgan', img_data[i], req.use_face_correction)
          filters_applied.append(req.use_face_correction)
      if req.use_upscale:
          img_data[i] = apply_filters('real_esrgan', img_data[i], req.use_upscale)
          filters_applied.append(req.use_upscale)
      if (len(filters_applied) > 0):
          filtered_image = Image.fromarray(img_data[i])
          filtered_img_data = img_to_base64_str(filtered_image, req.output_format)
          response_image = ResponseImage(data=filtered_img_data, seed=opt_seed)
          res.images.append(response_image)
          if req.save_to_disk_path is not None:
              filtered_img_out_path = get_base_path(..., req.output_format,
                                                    "_".join(filters_applied))
              save_image(filtered_image, filtered_img_out_path)
              response_image.path_abs = filtered_img_out_path
          del filtered_image
  opt_seed += 1
  \<close>
\<close>

definition has_filters :: "request \<Rightarrow> bool" where
  "has_filters req =
     ((case use_face_correction req of None \<Rightarrow> False | Some f \<Rightarrow> prefix ''GFPGAN'' f)
      \<or> (case use_upscale req of None \<Rightarrow> False | Some u \<Rightarrow> prefix ''RealESRGAN'' u))"

definition truthy :: "string option \<Rightarrow> bool" where
  "truthy s = (s \<noteq> None \<and> s \<noteq> Some [])"

fun join_underscore :: "string list \<Rightarrow> string" where
  "join_underscore [] = []"
| "join_underscore [s] = s"
| "join_underscore (s # t # rest) = s @ ''_'' @ join_underscore (t # rest)"

definition response_image_of ::
  "('c, 'z, 'x, 'img) environment \<Rightarrow> request \<Rightarrow> string \<Rightarrow> nat \<Rightarrow> int \<Rightarrow> string option
     \<Rightarrow> string \<Rightarrow> response_image" where
  "response_image_of env req prompt_text i opt_seed name_suffix img_str =
     \<lparr> ri_data = img_str, ri_seed = opt_seed,
       ri_path_abs = (case save_to_disk_path req of
                        None \<Rightarrow> None
                      | Some disk_path \<Rightarrow>
                          Some (get_base_path env disk_path (session_id req) prompt_text
                                  (img_id env i) (output_format req) name_suffix)) \<rparr>"

definition apply_requested_filters ::
  "('c, 'z, 'x, 'img) environment \<Rightarrow> request \<Rightarrow> 'img \<Rightarrow> 'l thread_data
     \<Rightarrow> 'l thread_data \<times> (exn + 'img)" where
  "apply_requested_filters env req img td =
     (case (if truthy (use_face_correction req)
            then apply_filters (filter_models env) ''gfpgan'' img (use_face_correction req) td
            else (td, Inr img)) of
        (td1, Inl e) \<Rightarrow> (td1, Inl e)
      | (td1, Inr img1) \<Rightarrow>
          (if truthy (use_upscale req)
           then apply_filters (filter_models env) ''real_esrgan'' img1 (use_upscale req) td1
           else (td1, Inr img1)))"

definition filters_applied :: "request \<Rightarrow> string list" where
  "filters_applied req =
     (if truthy (use_face_correction req) then [the (use_face_correction req)] else [])
     @ (if truthy (use_upscale req) then [the (use_upscale req)] else [])"

definition save_one ::
  "('c, 'z, 'x, 'img) environment \<Rightarrow> request \<Rightarrow> string \<Rightarrow> nat \<Rightarrow> 'img \<Rightarrow> int
     \<Rightarrow> 'l thread_data \<Rightarrow> response_image list
     \<Rightarrow> 'l thread_data \<times> (exn + response_image list)" where
  "save_one env req prompt_text i img opt_seed td images =
     (let return_orig_img = ((\<not> has_filters req \<or> \<not> show_only_filtered_image req)
                             \<or> stop_processing td)
      in case (if return_orig_img
               then (case img_to_base64_str (image_codec env) img (output_format req) of
                       Inl e \<Rightarrow> Inl e
                     | Inr img_str \<Rightarrow>
                         Inr (images @ [response_image_of env req prompt_text i opt_seed None img_str]))
               else Inr images) of
           Inl e \<Rightarrow> (td, Inl e)
         | Inr images1 \<Rightarrow>
             (if has_filters req \<and> \<not> stop_processing td then
                (case apply_requested_filters env req img td of
                   (td1, Inl e) \<Rightarrow> (td1, Inl e)
                 | (td1, Inr filtered_image) \<Rightarrow>
                     (if length (filters_applied req) > 0 then
                        (case img_to_base64_str (image_codec env) filtered_image (output_format req) of
                           Inl e \<Rightarrow> (td1, Inl e)
                         | Inr filtered_img_data \<Rightarrow>
                             (td1, Inr (images1 @
                                [response_image_of env req prompt_text i opt_seed
                                   (Some (join_underscore (filters_applied req)))
                                   filtered_img_data])))
                      else (td1, Inr images1)))
              else (td, Inr images1)))"

fun save_loop ::
  "('c, 'z, 'x, 'img) environment \<Rightarrow> request \<Rightarrow> string \<Rightarrow> (nat \<times> 'img) list \<Rightarrow> int
     \<Rightarrow> 'l thread_data \<Rightarrow> response_image list
     \<Rightarrow> 'l thread_data \<times> (exn + response_image list)" where
  "save_loop env req prompt_text [] opt_seed td images = (td, Inr images)"
| "save_loop env req prompt_text ((i, img) # rest) opt_seed td images =
     (case save_one env req prompt_text i img opt_seed td images of
        (td1, Inl e) \<Rightarrow> (td1, Inl e)
      | (td1, Inr images1) \<Rightarrow> save_loop env req prompt_text rest (opt_seed + 1) td1 images1)"

subsection \<open>The pipeline\<close>

text \<open>
  \<open>move_to_device\<close> is \<^verbatim>\<open>thread_data.modelCS.to(thread_data.device)\<close> and the same for
  \<^verbatim>\<open>modelFS\<close>, done under \<^verbatim>\<open>reduced_memory\<close> only.
\<close>

definition cs_to_device :: "'l thread_data \<Rightarrow> exn + 'l thread_data" where
  "cs_to_device td =
     (if reduced_memory td then
        (case modelCS td of
           None \<Rightarrow> Inl (no_attribute ''to'')
         | Some cs \<Rightarrow> Inr (td\<lparr>modelCS := Some (to_thread_device td cs)\<rparr>))
      else Inr td)"

definition fs_to_device :: "'l thread_data \<Rightarrow> exn + 'l thread_data" where
  "fs_to_device td =
     (if reduced_memory td then
        (case modelFS td of
           None \<Rightarrow> Inl (no_attribute ''to'')
         | Some fs \<Rightarrow> Inr (td\<lparr>modelFS := Some (to_thread_device td fs)\<rparr>))
      else Inr td)"

definition fs_to_host ::
  "('c, 'z, 'x, 'img) environment \<Rightarrow> 'l thread_data \<Rightarrow> exn + 'l thread_data" where
  "fs_to_host env td =
     (if reduced_memory td then
        (case wait_model_move_to env td (modelFS td) cpu of
           Inl e \<Rightarrow> Inl e
         | Inr fs \<Rightarrow> Inr (td\<lparr>modelFS := fs\<rparr>))
      else Inr td)"

text \<open>
  Decoding, filtering and saving (lines 637 to 707), then the final
  \<^verbatim>\<open>yield json.dumps(res.json())\<close>.
\<close>

definition deliver ::
  "('c, 'z, 'x, 'img) environment \<Rightarrow> request \<Rightarrow> string \<Rightarrow> event list \<Rightarrow> 'x list x_samples
     \<Rightarrow> 'x list thread_data \<Rightarrow> 'x list thread_data \<times> event list \<times> exn option" where
  "deliver env req prompt_text events xs td =
     (case decode_images env td (num_outputs req) xs of
        Inl e \<Rightarrow> (td, events, Some e)
      | Inr img_data \<Rightarrow>
          (case fs_to_host env td of
             Inl e \<Rightarrow> (td, events, Some e)
           | Inr td0 \<Rightarrow>
               (case save_loop env req prompt_text (zip [0 ..< length img_data] img_data)
                       (seed req) td0 [] of
                  (td1, Inl e) \<Rightarrow> (td1, events, Some e)
                | (td1, Inr images) \<Rightarrow>
                    ((if reduced_memory td1 then unload_filters td1 else td1),
                     events @ [ResponseJson images], None))))"

text \<open>
  Sampling and what follows it (lines 608 to 710), for the conditioning \<open>c\<close>, \<open>uc\<close>.
\<close>

definition sample_and_deliver ::
  "('c, 'z, 'x, 'img) environment \<Rightarrow> request \<Rightarrow> string \<Rightarrow> 'c \<Rightarrow> 'c option
     \<Rightarrow> 'z img2img_input option \<Rightarrow> 'x list thread_data
     \<Rightarrow> 'x list thread_data \<times> event list \<times> exn option" where
  "sample_and_deliver env req prompt_text c uc inp td =
     (case fs_to_device td of
        Inl e \<Rightarrow> (td, [], Some e)
      | Inr td1 \<Rightarrow>
          (case run_handler env req c uc inp td1 of
             (td2, events, raised) \<Rightarrow>
               (case collect_samples td2 raised of
                  (td3, Inl e) \<Rightarrow> (td3, events, Some e)
                | (td3, Inr None) \<Rightarrow> (td3, events @ [ResponseJson []], None)
                | (td3, Inr (Some xs)) \<Rightarrow> deliver env req prompt_text events xs td3)))"

text \<open>
  \<^verbatim>\<open>do_mk_img\<close>: preparing, the source image, conditioning, then sampling and delivery.
  \<^verbatim>\<open>assert prompt is not None\<close> comes after the model is prepared.  The list
  \<^verbatim>\<open>prompts\<close> is \<^verbatim>\<open>batch_size * [prompt]\<close>.
\<close>

definition do_mk_img ::
  "('c, 'z, 'x, 'img) environment \<Rightarrow> request \<Rightarrow> 'x list thread_data
     \<Rightarrow> 'x list thread_data \<times> event list \<times> exn option" where
  "do_mk_img env req td =
     (case prepare_model (os_path_exists env) req td of
        (td1, Inl e) \<Rightarrow> (td1, [], Some e)
      | (td1, Inr u) \<Rightarrow>
          (case prompt req of
             None \<Rightarrow> (td1, [], Some (AssertionError ''''))
           | Some prompt_text \<Rightarrow>
               (case prepare_img2img env req td1 of
                  (td2, Inl e) \<Rightarrow> (td2, [], Some e)
                | (td2, Inr inp) \<Rightarrow>
                    (case cs_to_device td2 of
                       Inl e \<Rightarrow> (td2, [], Some e)
                     | Inr td3 \<Rightarrow>
                         (case conditioning (cond_stage env) (modelCS td3) req
                                 (replicate (nat (num_outputs req)) prompt_text) of
                            Inl e \<Rightarrow> (td3, [], Some e)
                          | Inr (c, uc) \<Rightarrow>
                              sample_and_deliver env req prompt_text c uc inp td3)))))"

subsection \<open>The failure handler\<close>

text \<open>
  \<^verbatim>\<open>
  def mk_img(req: Request):
      try:
          yield from do_mk_img(req)
      except Exception as e:
          print(traceback.format_exc())
          if thread_data.reduced_memory:
              thread_data.modelFS.to('cpu')
              thread_data.modelCS.to('cpu')
              thread_data.model.model1.to("cpu")
              thread_data.model.model2.to("cpu")
          else:
              # Model crashed, release all resources in unknown state.
              unload_models()
              unload_filters()
          gc() # Release from memory.
          yield json.dumps({
              "status": 'failed',
              "detail": str(e)
          })
  \<close>
  A method call on \<^verbatim>\<open>None\<close> raises \<^verbatim>\<open>AttributeError\<close>; inside the handler nothing
  catches it.
\<close>

definition release_to_host :: "'l thread_data \<Rightarrow> 'l thread_data \<times> exn option" where
  "release_to_host td =
     (case modelFS td of
        None \<Rightarrow> (td, Some (no_attribute ''to''))
      | Some fs \<Rightarrow>
          (let td1 = td\<lparr>modelFS := Some (fs\<lparr>comp_at := cpu\<rparr>)\<rparr> in
           case modelCS td1 of
             None \<Rightarrow> (td1, Some (no_attribute ''to''))
           | Some cs \<Rightarrow>
               (let td2 = td1\<lparr>modelCS := Some (cs\<lparr>comp_at := cpu\<rparr>)\<rparr> in
                case model td2 of
                  None \<Rightarrow> (td2, Some (no_attribute ''model1''))
                | Some m \<Rightarrow>
                    (td2\<lparr>model := Some (m\<lparr>model1_at := cpu, model2_at := cpu\<rparr>)\<rparr>, None))))"

definition mk_img ::
  "('c, 'z, 'x, 'img) environment \<Rightarrow> request \<Rightarrow> 'x list thread_data
     \<Rightarrow> 'x list thread_data \<times> event list \<times> exn option" where
  "mk_img env req td =
     (case do_mk_img env req td of
        (td1, events, None) \<Rightarrow> (td1, events, None)
      | (td1, events, Some e) \<Rightarrow>
          (if reduced_memory td1 then
             (case release_to_host td1 of
                (td2, Some e2) \<Rightarrow> (td2, events, Some e2)
              | (td2, None) \<Rightarrow> (td2, events @ [Failed (str_of e)], None))
           else (unload_filters (unload_models td1), events @ [Failed (str_of e)], None)))"

subsection \<open>An environment, for evaluation\<close>

text \<open>
  Conditionings are vectors, a tensor in pixel or latent space is a number, a latent of
  one batch element is a number, an image is its bytes.  The sampler calls the callback
  once for each of its \<open>S\<close> steps, with a batch of one latent; the consumer never stops.
\<close>

definition example_env :: "(rat list, nat, nat, bytes) environment" where
  "example_env =
     \<lparr> os_path_exists = example_files, cond_stage = vec_conditioner, image_codec = raw_codec,
       preprocess_image = (\<lambda>img w0 h0. sum_list img), preprocess_mask = (\<lambda>img z. z),
       encode_first_stage = (\<lambda>z b. z), stochastic_encode = (\<lambda>z t s n. z + nat t),
       sample = (\<lambda>args. map (\<lambda>i. ImgCallback [100 + i] (int i)) [0 ..< nat (sa_S args)]),
       decode_first_stage = (\<lambda>x. [x, x, x]),
       filter_models = \<lparr> gfpgan_enhance = (\<lambda>g img. img), real_esrgan_enhance = (\<lambda>g img. img),
                         reverse_channels = rev \<rparr>,
       stop_requested = (\<lambda>k. False), img_id = (\<lambda>i. ''id'' @ str_nat i),
       path_join = (\<lambda>a b. a @ ''/'' @ b), memory_allocated = 0 \<rparr>"

subsection \<open>Conditions on a run, for the properties of cancellation\<close>

text \<open>
  \<open>preview_ok env req x i\<close>: the preview that the callback makes at step \<open>i\<close> for the
  batch \<open>x\<close>, when it makes one, does not raise: the batch has an element for every
  output and PIL encodes every decoded preview as JPEG.  \<open>encodes_ok env req img\<close>: PIL
  encodes the image in the requested output format.  \<open>handler_args\<close> are the arguments
  with which the handler of the request calls the sampler.
\<close>

definition is_ok :: "exn + 'a \<Rightarrow> bool" where
  "is_ok r = (case r of Inl e \<Rightarrow> False | Inr v \<Rightarrow> True)"

definition preview_ok :: "('c, 'z, 'x, 'img) environment \<Rightarrow> request \<Rightarrow> 'x list \<Rightarrow> int \<Rightarrow> bool" where
  "preview_ok env req x i =
     (stream_image_progress req \<and> i mod 5 = 0 \<longrightarrow>
        list_all (\<lambda>j. j < length x
                      \<and> is_ok (image_save (image_codec env) (decode_first_stage env (x ! j)) ''JPEG''))
          [0 ..< nat (num_outputs req)])"

fun callback_ok :: "('c, 'z, 'x, 'img) environment \<Rightarrow> request \<Rightarrow> 'x list sampler_action \<Rightarrow> bool" where
  "callback_ok env req (ImgCallback x i) = preview_ok env req x i"
| "callback_ok env req (SamplerRaise e) = False"

definition encodes_ok :: "('c, 'z, 'x, 'img) environment \<Rightarrow> request \<Rightarrow> 'img \<Rightarrow> bool" where
  "encodes_ok env req img = is_ok (image_save (image_codec env) img (output_format req))"

definition handler_args ::
  "('c, 'z, 'x, 'img) environment \<Rightarrow> request \<Rightarrow> 'c \<Rightarrow> 'c option \<Rightarrow> 'z img2img_input option
     \<Rightarrow> ('c, 'z) sample_args" where
  "handler_args env req c uc inp =
     (case inp of None \<Rightarrow> txt2img_args req c uc | Some i2i \<Rightarrow> img2img_args env req c uc i2i)"

fun is_progress :: "event \<Rightarrow> bool" where
  "is_progress (Progress i n out) = True"
| "is_progress (ResponseJson images) = False"
| "is_progress (Failed detail) = False"

subsection \<open>A worker with its models loaded, a short request and two runs, for evaluation\<close>

definition td_ready :: "'l thread_data" where
  "td_ready = fst (load_model_ckpt example_files (td_gpu0\<lparr>ckpt_file := Some ''models/sd-v1-4''\<rparr>))"

definition short_request :: request where
  "short_request = example_request\<lparr>num_inference_steps := 4\<rparr>"

text \<open>The consumer asks to stop during the third progress event.\<close>

definition env_stop_at_2 :: "(rat list, nat, nat, bytes) environment" where
  "env_stop_at_2 = example_env\<lparr>stop_requested := (\<lambda>k. k = 2)\<rparr>"

text \<open>A sampler that raises the stop signal itself, before any callback.\<close>

definition env_stop_first :: "(rat list, nat, nat, bytes) environment" where
  "env_stop_first = example_env\<lparr>sample := (\<lambda>args. [SamplerRaise (UserInitiatedStop ''stop'')])\<rparr>"

subsection \<open>An image-to-image request, for evaluation\<close>


section \<open>Properties of the image codec utilities\<close>

lemma lower_png: "lower ''PNG'' = ''png''"
  by code_simp

lemma jpeg_prefix_length: "length (''data:'' @ ''image/jpeg'' @ '';base64,'') = 23"
  by simp

lemma png_prefix_length: "length (''data:'' @ ''image/png'' @ '';base64,'') = 22"
  by simp

text \<open>
  Claim C10.  The decoder tests its input against the prefix \<open>data:image/png;\<close> only.
  Every input that does not start with that prefix loses its first 23 characters (the
  length of \<open>data:image/jpeg;base64,\<close>) before base64 decoding, whether or not it carries
  a data-URI prefix: the result is what the base64 decoder and \<open>Image.open\<close> make of the
  rest.
\<close>

theorem base64_str_to_img_non_png_drops_23:
  assumes "\<not> prefix ''data:image/png;'' img_str"
  shows "base64_str_to_img cd img_str =
           (case b64decode cd (drop 23 img_str) of
              Inl e \<Rightarrow> Inl e
            | Inr data \<Rightarrow> image_open cd data)"
  using assms unfolding base64_str_to_img_def Let_def
  by (simp only: if_False jpeg_prefix_length)

theorem base64_str_to_img_non_png_drops_23_witness:
  "\<not> prefix ''data:image/png;'' ''QUJDREVGR0hJSktMTU5PUFFTWFu''
   \<and> base64_str_to_img raw_codec ''QUJDREVGR0hJSktMTU5PUFFTWFu'' = Inr [77, 97, 110]
   \<and> std_b64decode ''QUJDREVGR0hJSktMTU5PUFFTWFu'' \<noteq> Inr [77, 97, 110]"
proof -
  have h: "\<not> prefix ''data:image/png;'' ''QUJDREVGR0hJSktMTU5PUFFTWFu''"
    by simp
  have d: "std_b64decode ''TWFu'' = Inr [77, 97, 110]"
    by (simp add: b64_alphabet_def)
  have w: "std_b64decode ''QUJDREVGR0hJSktMTU5PUFFTWFu'' \<noteq> Inr [77, 97, 110]"
    by (simp add: b64_alphabet_def)
  from base64_str_to_img_non_png_drops_23 [OF h, of raw_codec] d
  have "base64_str_to_img raw_codec ''QUJDREVGR0hJSktMTU5PUFFTWFu'' = Inr [77, 97, 110]"
    by (simp add: raw_codec_def)
  with h w show ?thesis by simp
qed

text \<open>
  Claim C8.  Encoding an image to a data URI in PNG format and decoding that string gives
  the image back.  The encoder writes the prefix \<open>data:image/png;base64,\<close>, the
  decoder recognises it and strips exactly its 22 characters, so the base64 decoder
  receives the encoder's base64 text unchanged.  PIL and \<^verbatim>\<open>base64\<close> are parameters: the
  hypotheses say that \<^verbatim>\<open>img.save\<close> produced the bytes \<open>bs\<close>, that base64 decoding
  inverts base64 encoding on \<open>bs\<close>, and that the PNG file \<open>bs\<close> opens as the image it
  was saved from (PNG is lossless).
\<close>

theorem png_data_uri_round_trip:
  assumes "lower fmt = ''png''"
    and "image_save cd img fmt = Inr bs"
    and "b64decode cd (b64encode cd bs) = Inr bs"
    and "image_open cd bs = Inr img"
  shows "(case img_to_base64_str cd img fmt of
            Inl e \<Rightarrow> Inl e
          | Inr img_str \<Rightarrow> base64_str_to_img cd img_str) = Inr img"
proof -
  have enc: "img_to_base64_str cd img fmt
               = Inr (''data:image/png;base64,'' @ b64encode cd bs)"
    using assms(1,2) by (simp add: img_to_base64_str_def)
  have pre: "prefix ''data:image/png;'' (''data:image/png;base64,'' @ b64encode cd bs)"
    by simp
  have "base64_str_to_img cd (''data:image/png;base64,'' @ b64encode cd bs) = Inr img"
    unfolding base64_str_to_img_def Let_def
    using pre assms(3,4) by (simp only: if_True png_prefix_length) simp
  with enc show ?thesis by simp
qed

theorem png_data_uri_round_trip_witness:
  "lower ''PNG'' = ''png''
   \<and> img_to_base64_str raw_codec [137, 80, 78, 71, 13] ''PNG''
        = Inr ''data:image/png;base64,iVBORw0=''
   \<and> (case img_to_base64_str raw_codec [137, 80, 78, 71, 13] ''PNG'' of
          Inl e \<Rightarrow> Inl e
        | Inr img_str \<Rightarrow> base64_str_to_img raw_codec img_str) = Inr [137, 80, 78, 71, 13]"
proof -
  have e: "std_b64encode [137, 80, 78, 71, 13] = ''iVBORw0=''"
    by (simp add: b64_alphabet_def)
  have d: "std_b64decode ''iVBORw0='' = Inr [137, 80, 78, 71, 13]"
    by (simp add: b64_alphabet_def)
  have s: "img_to_base64_str raw_codec [137, 80, 78, 71, 13] ''PNG''
             = Inr ''data:image/png;base64,iVBORw0=''"
    using e lower_png by (simp add: img_to_base64_str_def raw_codec_def)
  have "(case img_to_base64_str raw_codec [137, 80, 78, 71, 13] ''PNG'' of
           Inl e \<Rightarrow> Inl e
         | Inr img_str \<Rightarrow> base64_str_to_img raw_codec img_str) = Inr [137, 80, 78, 71, 13]"
    by (rule png_data_uri_round_trip [where bs = "[137, 80, 78, 71, 13]"])
       (simp_all add: lower_png raw_codec_def e d
          del: std_b64encode.simps std_b64decode.simps)
  with s lower_png show ?thesis by simp
qed

section \<open>Properties of device initialisation\<close>

lemma three_gpus_fields:
  "is_available three_gpus" "device_count three_gpus = 3"
  "mem_get_info three_gpus (DevInt 0) = Inr (1000000000, 12000000000)"
  "mem_get_info three_gpus (DevInt 1) = Inr (10000000000, 12000000000)"
  "mem_get_info three_gpus (DevInt 2) = Inr (2000000000, 12000000000)"
  "get_device_name three_gpus d = ''NVIDIA GeForce RTX 3060''"
  by (simp_all add: three_gpus_def)

lemma upto_0_2: "[0 .. (2::int)] = [0, 1, 2]"
  by code_simp

lemma probe_three_gpus: "probe_loop three_gpus [0 .. 2] 0 None = Inr (10, Some 1)"
  by (simp add: three_gpus_fields upto_0_2 gigabytes_def)

text \<open>
  Claim C5.  With the selector \<open>auto\<close> and more than one accelerator, the device that
  \<^verbatim>\<open>device_init\<close> records should be the one with the most free memory.  The loop
  finds that device (\<^verbatim>\<open>best_device\<close>), but the selection that follows validates and
  records the loop variable \<^verbatim>\<open>device\<close>, which is the last index probed.  On a machine
  with three accelerators that have 1 GB, 10 GB and 2 GB free (12 GB each in total), the
  device with the most free memory is 1 and the device recorded is 2.
\<close>

theorem device_init_auto_records_last_device:
  "most_free_device three_gpus = Some 1
   \<and> (case (device_init three_gpus ''auto'' :: exn + unit thread_data) of
          Inl e \<Rightarrow> None
        | Inr td \<Rightarrow> device td) = Some (DevInt 2)"
proof -
  have best: "most_free_device three_gpus = Some 1"
    by (simp add: most_free_device_def three_gpus_fields probe_three_gpus)
  have valid: "device_would_fail three_gpus (DevInt 2) = None"
    by (simp add: device_would_fail_def three_gpus_fields gigabytes_def)
  have "(case (device_init three_gpus ''auto'' :: exn + unit thread_data) of
           Inl e \<Rightarrow> None
         | Inr td \<Rightarrow> device td) = Some (DevInt 2)"
    by (simp add: device_init_def probe_three_gpus device_select_def valid three_gpus_fields
          device_accept_def Let_def lower_def lower_char_def)
  with best show ?thesis by simp
qed

section \<open>Properties of the filter models\<close>







section \<open>Properties of the checkpoint cache\<close>

lemma load_model_ckpt_ok:
  assumes "ckpt_file td = Some A" "A \<noteq> []" "file_exists (A @ ''.ckpt'')" "device td = Some d"
  shows "\<exists>td'. load_model_ckpt file_exists td = (td', Inr ())
           \<and> load_count td' = Suc (load_count td)
           \<and> model td' \<noteq> None \<and> ckpt_file td' = Some A \<and> vae_file td' = vae_file td
           \<and> device td' = Some d \<and> force_full_precision td' = force_full_precision td
           \<and> turbo td' = turbo td
           \<and> precision td' = (if d = cpu then ''full''
                               else if precision td = []
                                    then (if force_full_precision td then ''full'' else ''autocast'')
                                    else precision td)
           \<and> model_is_half td' = (d \<noteq> cpu \<and> precision td' = ''autocast'')"
  using assms by (simp add: load_model_ckpt_def Let_def)

lemma set_turbo_ok:
  assumes "model td \<noteq> None"
  shows "\<exists>td'. set_turbo req td = (td', Inr ())
           \<and> load_count td' = load_count td \<and> ckpt_file td' = ckpt_file td
           \<and> vae_file td' = vae_file td \<and> device td' = device td
           \<and> precision td' = precision td \<and> model_is_half td' = model_is_half td
           \<and> force_full_precision td' = force_full_precision td
           \<and> modelCS td' = modelCS td \<and> modelFS td' = modelFS td
           \<and> map_option unet_id (model td') = map_option unet_id (model td)
           \<and> model td' \<noteq> None"
  using assms by (auto simp: set_turbo_def)

lemma prepare_model_loads:
  fixes td :: "'l thread_data"
  assumes A: "use_stable_diffusion_model req = A" "A \<noteq> []" "file_exists (A @ ''.ckpt'')"
    and d: "device td = Some d" and p: "precision td \<noteq> []"
    and ch: "ckpt_changed req td \<or> precision_changed req td"
  shows "\<exists>td'. prepare_model file_exists req td = (td', Inr ())
           \<and> load_count td' = Suc (load_count td)
           \<and> device td' = Some d \<and> precision td' \<noteq> []
           \<and> settled req td'"
proof -
  define td0 where "td0 = td\<lparr>stop_processing := False, temp_images := Map.empty\<rparr>"
  define td1 where "td1 = select_ckpt req td0"
  define td2 where "td2 = select_precision req td1"
  define tdu where "tdu = unload_filters (unload_models td2)"
  have c0: "ckpt_changed req td0 = ckpt_changed req td"
    by (simp add: td0_def ckpt_changed_def)
  have p1: "precision_changed req td1 = precision_changed req td"
    by (simp add: td1_def td0_def precision_changed_def select_ckpt_def)
  have f1: "ckpt_file td1 = Some A \<and> vae_file td1 = use_vae_model req"
    using A(1) by (auto simp: td1_def td0_def ckpt_changed_def select_ckpt_def)
  have u: "ckpt_file tdu = Some A" "vae_file tdu = use_vae_model req" "device tdu = Some d"
    "force_full_precision tdu = force_full_precision td"
    "load_count tdu = load_count td"
    "precision tdu = (if precision_changed req td
                      then (if use_full_precision req then ''full'' else ''autocast'')
                      else precision td)"
    using f1 d p1
    by (simp_all add: tdu_def unload_filters_def unload_models_def td2_def select_precision_def)
       (simp_all add: td1_def td0_def select_ckpt_def)
  have prep: "prepare_model file_exists req td =
                (case load_model_ckpt file_exists tdu of
                   (td3, Inl e) \<Rightarrow> (td3, Inl e)
                 | (td3, Inr u) \<Rightarrow> set_turbo req td3)"
    using A ch c0 p1
    by (simp add: prepare_model_def Let_def td0_def [symmetric] td1_def [symmetric]
          td2_def [symmetric] tdu_def [symmetric])
  from load_model_ckpt_ok [of tdu A file_exists d, OF u(1) A(2) A(3) u(3)]
  obtain td3 where l: "load_model_ckpt file_exists tdu = (td3, Inr ())"
    "load_count td3 = Suc (load_count tdu)" "model td3 \<noteq> None" "ckpt_file td3 = Some A"
    "vae_file td3 = vae_file tdu" "device td3 = Some d"
    "force_full_precision td3 = force_full_precision tdu"
    "precision td3 = (if d = cpu then ''full''
                               else if precision tdu = []
                                    then (if force_full_precision tdu then ''full'' else ''autocast'')
                                    else precision tdu)"
    "model_is_half td3 = (d \<noteq> cpu \<and> precision td3 = ''autocast'')"
    by blast
  from set_turbo_ok [OF l(3), of req]
  obtain td' where t: "set_turbo req td3 = (td', Inr ())"
    "load_count td' = load_count td3" "ckpt_file td' = ckpt_file td3"
    "vae_file td' = vae_file td3" "device td' = device td3"
    "precision td' = precision td3" "model_is_half td' = model_is_half td3"
    "force_full_precision td' = force_full_precision td3"
    "model td' \<noteq> None"
    by blast
  have r: "prepare_model file_exists req td = (td', Inr ())"
    by (simp add: prep l(1) t(1))
  have pne: "precision tdu \<noteq> []"
    using p by (simp add: u(6))
  have prec: "precision td' = (if d = cpu then ''full'' else precision tdu)"
    using pne by (simp add: t(6) l(8))
  have s1: "\<not> ckpt_changed req td'"
    using A(1) by (simp add: ckpt_changed_def t l u)
  have s2: "\<not> precision_changed req td'"
  proof (cases "d = cpu")
    case True
    then show ?thesis by (simp add: precision_changed_def t l)
  next
    case False
    show ?thesis
    proof (cases "precision_changed req td")
      case True
      then show ?thesis
        using False by (simp add: precision_changed_def t l u prec)
    next
      case False
      then show ?thesis
        using \<open>d \<noteq> cpu\<close> d p by (auto simp: precision_changed_def t l u prec)
    qed
  qed
  show ?thesis
    using r s1 s2 pne by (intro exI [of _ td']) (simp add: settled_def t l u prec)
qed

lemma prepare_model_settled:
  fixes td :: "'l thread_data"
  assumes f: "file_exists (use_stable_diffusion_model req @ ''.ckpt'')" and s: "settled req td"
  shows "\<exists>td'. prepare_model file_exists req td = (td', Inr ())
           \<and> load_count td' = load_count td
           \<and> modelCS td' = modelCS td \<and> modelFS td' = modelFS td
           \<and> map_option unet_id (model td') = map_option unet_id (model td)
           \<and> model td' \<noteq> None
           \<and> device td' = device td \<and> precision td' = precision td \<and> settled req td'"
proof -
  define td0 where "td0 = td\<lparr>stop_processing := False, temp_images := Map.empty\<rparr>"
  have c0: "\<not> ckpt_changed req td0" "\<not> precision_changed req td0"
    using s by (simp_all add: td0_def settled_def ckpt_changed_def precision_changed_def)
  have prep: "prepare_model file_exists req td = set_turbo req td0"
    using f c0 by (simp add: prepare_model_def Let_def td0_def [symmetric] select_ckpt_def select_precision_def)
  have m: "model td0 \<noteq> None"
    using c0(1) by (simp add: ckpt_changed_def)
  from set_turbo_ok [OF m, of req]
  obtain td' where t: "set_turbo req td0 = (td', Inr ())"
    "load_count td' = load_count td0" "ckpt_file td' = ckpt_file td0"
    "vae_file td' = vae_file td0" "device td' = device td0"
    "precision td' = precision td0" "model_is_half td' = model_is_half td0"
    "force_full_precision td' = force_full_precision td0"
    "modelCS td' = modelCS td0" "modelFS td' = modelFS td0"
    "map_option unet_id (model td') = map_option unet_id (model td0)"
    "model td' \<noteq> None"
    by blast
  have s': "settled req td'"
    using c0 t(12) by (simp add: settled_def ckpt_changed_def precision_changed_def t)
  show ?thesis
    using s' t by (intro exI [of _ td']) (simp add: prep td0_def)
qed


lemma settled_cong:
  assumes "use_stable_diffusion_model req' = use_stable_diffusion_model req"
    and "use_vae_model req' = use_vae_model req"
    and "use_full_precision req' = use_full_precision req"
  shows "settled req' td = settled req td"
  using assms by (simp add: settled_def ckpt_changed_def precision_changed_def)

lemma prepare_model_valid:
  fixes td :: "'l thread_data"
  assumes A: "use_stable_diffusion_model req = A" "A \<noteq> []" "file_exists (A @ ''.ckpt'')"
    and d: "device td \<noteq> None" and p: "precision td \<noteq> []"
  shows "\<exists>td'. prepare_model file_exists req td = (td', Inr ())
           \<and> load_count td' = (if settled req td then load_count td else Suc (load_count td))
           \<and> device td' = device td \<and> precision td' \<noteq> []
           \<and> settled req td'"
proof (cases "settled req td")
  case True
  from prepare_model_settled [where file_exists = file_exists and req = req and td = td] True A p
  show ?thesis using True by auto
next
  case False
  then have ch: "ckpt_changed req td \<or> precision_changed req td"
    by (auto simp: settled_def)
  from d obtain dv where dv: "device td = Some dv" by auto
  from prepare_model_loads [where file_exists = file_exists, OF A dv p ch]
  show ?thesis using False dv by auto
qed

text \<open>
  Claim C1.  \<open>A\<close> and \<open>B\<close> are valid checkpoint identities: non-empty paths whose
  \<^verbatim>\<open>.ckpt\<close> file exists.  The worker has a device and a precision, as \<^verbatim>\<open>device_init\<close>
  leaves it.  A request for \<open>A\<close> succeeds and, when \<open>A\<close> is not the checkpoint bound
  already, runs \<^verbatim>\<open>load_model_ckpt\<close> exactly once.  A request for \<open>B\<close> after it runs
  \<^verbatim>\<open>load_model_ckpt\<close> exactly once.  A second request for \<open>A\<close> with the same VAE and
  the same \<^verbatim>\<open>use_full_precision\<close> runs it not at all and leaves the three model handles
  the objects they were.  The comparison is equality of the path strings.
\<close>

theorem checkpoint_cache_reloads:
  fixes td :: "'l thread_data"
  assumes A: "A \<noteq> []" "file_exists (A @ ''.ckpt'')"
    and B: "B \<noteq> []" "file_exists (B @ ''.ckpt'')"
    and AB: "A \<noteq> B"
    and d: "device td \<noteq> None" and p: "precision td \<noteq> []"
    and rA: "use_stable_diffusion_model reqA = A"
    and rB: "use_stable_diffusion_model reqB = B"
    and rA': "use_stable_diffusion_model reqA' = A" "use_vae_model reqA' = use_vae_model reqA"
      "use_full_precision reqA' = use_full_precision reqA"
  shows "(let r1 = prepare_model file_exists reqA td;
              r2 = prepare_model file_exists reqB (fst r1);
              r3 = prepare_model file_exists reqA' (fst r1)
          in snd r1 = Inr ()
           \<and> (model td = None \<or> ckpt_file td \<noteq> Some A
                \<longrightarrow> load_count (fst r1) = load_count td + 1)
           \<and> snd r2 = Inr ()
           \<and> load_count (fst r2) = load_count (fst r1) + 1
           \<and> snd r3 = Inr ()
           \<and> load_count (fst r3) = load_count (fst r1)
           \<and> model (fst r3) \<noteq> None
           \<and> map_option unet_id (model (fst r3)) = map_option unet_id (model (fst r1))
           \<and> modelCS (fst r3) = modelCS (fst r1)
           \<and> modelFS (fst r3) = modelFS (fst r1))"
proof -
  from prepare_model_valid [where file_exists = file_exists, OF rA A d p]
  obtain td1 where 1: "prepare_model file_exists reqA td = (td1, Inr ())"
    "load_count td1 = (if settled reqA td then load_count td else Suc (load_count td))"
    "device td1 = device td" "precision td1 \<noteq> []" "settled reqA td1"
    by blast
  have fresh: "model td = None \<or> ckpt_file td \<noteq> Some A \<Longrightarrow> \<not> settled reqA td"
    using rA by (auto simp: settled_def ckpt_changed_def)
  have d1: "device td1 \<noteq> None" using d 1(3) by simp
  have "ckpt_file td1 = Some A"
    using 1(5) rA by (simp add: settled_def ckpt_changed_def)
  then have nB: "\<not> settled reqB td1"
    using rB AB by (simp add: settled_def ckpt_changed_def)
  from prepare_model_valid [where file_exists = file_exists, OF rB B d1 1(4)]
  obtain td2 where 2: "prepare_model file_exists reqB td1 = (td2, Inr ())"
    "load_count td2 = (if settled reqB td1 then load_count td1 else Suc (load_count td1))"
    by blast
  have sA': "settled reqA' td1"
    using 1(5) settled_cong [of reqA' reqA td1] rA rA' by simp
  have fA': "file_exists (use_stable_diffusion_model reqA' @ ''.ckpt'')"
    using rA' A by simp
  from prepare_model_settled [where file_exists = file_exists, OF fA' sA']
  obtain td3 where 3: "prepare_model file_exists reqA' td1 = (td3, Inr ())"
    "load_count td3 = load_count td1" "modelCS td3 = modelCS td1" "modelFS td3 = modelFS td1"
    "map_option unet_id (model td3) = map_option unet_id (model td1)" "model td3 \<noteq> None"
    by blast
  show ?thesis
    using 1(2) 2(2) 3 nB fresh by (simp add: 1(1) 2(1) 3(1) Let_def)
qed


theorem checkpoint_cache_reloads_witness:
  "''models/sd-v1-4'' \<noteq> [] \<and> example_files (''models/sd-v1-4'' @ ''.ckpt'')
   \<and> ''models/custom'' \<noteq> [] \<and> example_files (''models/custom'' @ ''.ckpt'')
   \<and> ''models/sd-v1-4'' \<noteq> ''models/custom''
   \<and> device (td_gpu0 :: unit thread_data) \<noteq> None
   \<and> precision (td_gpu0 :: unit thread_data) \<noteq> []
   \<and> model (td_gpu0 :: unit thread_data) = None
   \<and> (let r1 = prepare_model example_files example_request (td_gpu0 :: unit thread_data);
            r2 = prepare_model example_files
                   (example_request\<lparr>use_stable_diffusion_model := ''models/custom''\<rparr>) (fst r1);
            r3 = prepare_model example_files (example_request\<lparr>seed := 43\<rparr>) (fst r1)
        in snd r1 = Inr () \<and> load_count (fst r1) = 1
         \<and> snd r2 = Inr () \<and> load_count (fst r2) = 2
         \<and> snd r3 = Inr () \<and> load_count (fst r3) = 1
         \<and> model (fst r3) \<noteq> None
         \<and> map_option unet_id (model (fst r3)) = map_option unet_id (model (fst r1))
         \<and> modelCS (fst r3) = modelCS (fst r1)
         \<and> modelFS (fst r3) = modelFS (fst r1))"
proof -
  have h: "''models/sd-v1-4'' \<noteq> []" "example_files (''models/sd-v1-4'' @ ''.ckpt'')"
    "''models/custom'' \<noteq> []" "example_files (''models/custom'' @ ''.ckpt'')"
    "''models/sd-v1-4'' \<noteq> ''models/custom''"
    by (simp_all add: example_files_def)
  have t: "device (td_gpu0 :: unit thread_data) \<noteq> None"
    "precision (td_gpu0 :: unit thread_data) \<noteq> []"
    "model (td_gpu0 :: unit thread_data) = None"
    "load_count (td_gpu0 :: unit thread_data) = 0"
    by (simp_all add: td_gpu0_def thread_init_def)
  have r: "use_stable_diffusion_model example_request = ''models/sd-v1-4''"
    "use_stable_diffusion_model (example_request\<lparr>use_stable_diffusion_model := ''models/custom''\<rparr>)
       = ''models/custom''"
    "use_stable_diffusion_model (example_request\<lparr>seed := 43\<rparr>) = ''models/sd-v1-4''"
    "use_vae_model (example_request\<lparr>seed := 43\<rparr>) = use_vae_model example_request"
    "use_full_precision (example_request\<lparr>seed := 43\<rparr>) = use_full_precision example_request"
    by (simp_all add: example_request_def)
  note c = checkpoint_cache_reloads [where file_exists = example_files
             and td = "td_gpu0 :: unit thread_data",
             OF h(1) h(2) h(3) h(4) h(5) t(1) t(2) r(1) r(2) r(3) r(4) r(5)]
  show ?thesis
    using c h t by (simp add: Let_def)
qed

section \<open>Properties of the conditioning\<close>


lemma vec_split:
  "split_weighted_subprompts vec_conditioner ''cat|dog'' = ([''cat'', ''dog''], [1, 1])"
  "split_weighted_subprompts vec_conditioner ''cat:2|dog:2'' = ([''cat'', ''dog''], [2, 2])"
  "split_weighted_subprompts vec_conditioner ''cat'' = ([''cat''], [1])"
  "split_weighted_subprompts vec_conditioner '''' = ([], [])"
  by (simp_all add: vec_conditioner_def weight_of_def suffix_def)



text \<open>
  Claim C9, as stated, says that with guidance scale 1.0 the conditioning succeeds only
  for a prompt with exactly one sub-prompt.  A prompt with no sub-prompt at all (the
  empty prompt) takes the \<^verbatim>\<open>else\<close> branch as well and succeeds.
\<close>

theorem conditioning_without_subprompts_succeeds:
  "guidance_scale (example_request\<lparr>guidance_scale := 1\<rparr>) = 1
   \<and> split_weighted_subprompts vec_conditioner '''' = ([], [])
   \<and> conditioning vec_conditioner loaded_cs (example_request\<lparr>guidance_scale := 1\<rparr>) ['''']
        = Inr ([0, 1], None)"
  by (simp add: conditioning_def vec_split learned_conditioning_def loaded_cs_def)
     (simp add: vec_conditioner_def)

text \<open>
  Claim C9, as the code has it.  With guidance scale 1.0 the unconditional conditioning
  is \<^verbatim>\<open>None\<close>; a prompt with more than one sub-prompt raises \<^verbatim>\<open>TypeError\<close> at
  \<^verbatim>\<open>torch.zeros_like(uc)\<close>, and the conditioning succeeds only for a prompt with at most
  one sub-prompt; with the conditioner loaded it does succeed for such a prompt, and the
  result is the conditioning of the whole list of prompts.
\<close>

theorem unguided_conditioning_needs_single_subprompt:
  assumes "guidance_scale req = 1"
  shows "(length (fst (split_weighted_subprompts cn p)) > 1
            \<longrightarrow> (\<exists>m. conditioning cn cs req (p # ps) = Inl (TypeError m)))
         \<and> (\<forall>r. conditioning cn cs req (p # ps) = Inr r
               \<longrightarrow> length (fst (split_weighted_subprompts cn p)) \<le> 1)
         \<and> (cs \<noteq> None \<and> length (fst (split_weighted_subprompts cn p)) \<le> 1
               \<longrightarrow> conditioning cn cs req (p # ps)
                     = Inr (get_learned_conditioning cn (PromptList (p # ps)), None))"
  using assms
  by (cases "split_weighted_subprompts cn p")
     (auto simp: conditioning_def learned_conditioning_def)

theorem unguided_conditioning_needs_single_subprompt_witness:
  "guidance_scale (example_request\<lparr>guidance_scale := 1\<rparr>) = 1
   \<and> length (fst (split_weighted_subprompts vec_conditioner ''cat|dog'')) > 1
   \<and> (\<exists>m. conditioning vec_conditioner loaded_cs
               (example_request\<lparr>guidance_scale := 1\<rparr>) [''cat|dog'']
             = Inl (TypeError m))
   \<and> loaded_cs \<noteq> None
   \<and> length (fst (split_weighted_subprompts vec_conditioner ''cat'')) \<le> 1
   \<and> conditioning vec_conditioner loaded_cs
         (example_request\<lparr>guidance_scale := 1\<rparr>) [''cat'']
        = Inr ([3, 1], None)"
proof -
  have g: "guidance_scale (example_request\<lparr>guidance_scale := 1\<rparr>) = 1" by simp
  have l: "length (fst (split_weighted_subprompts vec_conditioner ''cat|dog'')) > 1"
    by (simp add: vec_split)
  have n: "loaded_cs \<noteq> None"
    by (simp add: loaded_cs_def)
  have l1: "length (fst (split_weighted_subprompts vec_conditioner ''cat'')) \<le> 1"
    by (simp add: vec_split)
  have c: "conditioning vec_conditioner loaded_cs
             (example_request\<lparr>guidance_scale := 1\<rparr>) [''cat'']
        = Inr ([3, 1], None)"
    by (simp add: conditioning_def vec_split learned_conditioning_def loaded_cs_def)
       (simp add: vec_conditioner_def)
  from unguided_conditioning_needs_single_subprompt
         [OF g, of vec_conditioner "''cat|dog''" loaded_cs "[]"]
    unguided_conditioning_needs_single_subprompt
         [OF g, of vec_conditioner "''cat''" loaded_cs "[]"]
    g l c n l1
  show ?thesis by blast
qed

section \<open>Properties of cancellation\<close>

lemma update_temp_loop_ok:
  fixes td :: "'l thread_data"
  assumes "list_all (\<lambda>j. j < length x
                      \<and> is_ok (image_save (image_codec env) (decode_first_stage env (x ! j)) ''JPEG'')) js"
    and "modelFS td \<noteq> None"
  shows "\<exists>T paths. update_temp_loop env req x js td acc = (td\<lparr>temp_images := T\<rparr>, Inr paths)"
  using assms
proof (induction js arbitrary: td acc)
  case Nil
  have "td = td\<lparr>temp_images := temp_images td\<rparr>" by simp
  then show ?case by (metis update_temp_loop.simps(1))
next
  case (Cons j js)
  then obtain buf where b: "j < length x"
    "image_save (image_codec env) (decode_first_stage env (x ! j)) ''JPEG'' = Inr buf"
    by (auto simp: is_ok_def split: sum.splits)
  from Cons.prems(2) obtain fs where fs: "modelFS td = Some fs"
    by auto
  from Cons have r: "list_all (\<lambda>j. j < length x
                      \<and> is_ok (image_save (image_codec env) (decode_first_stage env (x ! j)) ''JPEG'')) js"
    by simp
  have m: "modelFS (td\<lparr>temp_images := (temp_images td)(session_id req @ ''/'' @ str_nat j \<mapsto> buf)\<rparr>)
             \<noteq> None"
    using Cons.prems(2) by simp
  from Cons.IH [OF r m] obtain T paths where
    "update_temp_loop env req x js
       (td\<lparr>temp_images := (temp_images td)(session_id req @ ''/'' @ str_nat j \<mapsto> buf)\<rparr>)
       (acc @ [''/image/tmp/'' @ session_id req @ ''/'' @ str_nat j])
     = (td\<lparr>temp_images := (temp_images td)(session_id req @ ''/'' @ str_nat j \<mapsto> buf)\<rparr>
          \<lparr>temp_images := T\<rparr>, Inr paths)"
    by blast
  then show ?case using b fs by (auto intro: exI [of _ T])
qed

lemma record_progress_ok:
  fixes td :: "'x list thread_data"
  assumes "preview_ok env req x i" and "modelFS td \<noteq> None"
  shows "\<exists>T output. record_progress env req x i td
           = (td\<lparr>partial_x_samples := Some (Some x), temp_images := T\<rparr>, Inr output)"
proof (cases "stream_image_progress req \<and> i mod 5 = 0")
  case True
  with assms have l: "list_all (\<lambda>j. j < length x
                      \<and> is_ok (image_save (image_codec env) (decode_first_stage env (x ! j)) ''JPEG''))
          [0 ..< nat (num_outputs req)]"
    by (simp add: preview_ok_def)
  have m: "modelFS (td\<lparr>partial_x_samples := Some (Some x)\<rparr>) \<noteq> None"
    using assms(2) by simp
  from update_temp_loop_ok [OF l m, of req "[]"]
  obtain T paths where u: "update_temp_img env req x (td\<lparr>partial_x_samples := Some (Some x)\<rparr>)
      = (td\<lparr>partial_x_samples := Some (Some x), temp_images := T\<rparr>, Inr paths)"
    by (auto simp: update_temp_img_def)
  have "record_progress env req x i td
          = (td\<lparr>partial_x_samples := Some (Some x), temp_images := T\<rparr>, Inr (Some paths))"
    unfolding record_progress_def using True by (simp only: if_True u prod.case sum.case) simp
  then show ?thesis by blast
next
  case False
  have "record_progress env req x i td
          = (td\<lparr>partial_x_samples := Some (Some x), temp_images := temp_images td\<rparr>, Inr None)"
    unfolding record_progress_def using False by (simp only: if_False) simp
  then show ?thesis by blast
qed


lemma run_sampler_prefix:
  fixes td :: "'x list thread_data"
  assumes "list_all (callback_ok env req) pre"
    and "\<forall>j < length pre. \<not> stop_requested env (length events + j)"
    and "\<not> stop_processing td"
    and "modelFS td \<noteq> None"
  shows "\<exists>T P evs. run_sampler env req n (pre @ acts) td events
             = run_sampler env req n acts (td\<lparr>partial_x_samples := P, temp_images := T\<rparr>)
                 (events @ evs)
           \<and> length evs = length pre \<and> list_all is_progress evs"
  using assms
proof (induction pre arbitrary: td events)
  case Nil
  have "td = td\<lparr>partial_x_samples := partial_x_samples td, temp_images := temp_images td\<rparr>"
    by simp
  then have "run_sampler env req n ([] @ acts) td events
             = run_sampler env req n acts
                 (td\<lparr>partial_x_samples := partial_x_samples td, temp_images := temp_images td\<rparr>)
                 (events @ [])"
    by simp
  then show ?case
    by (intro exI [of _ "temp_images td"] exI [of _ "partial_x_samples td"] exI [of _ "[]"]) simp
next
  case (Cons a pre)
  from Cons.prems(1) obtain x i where a: "a = ImgCallback x i" and ok: "preview_ok env req x i"
    by (cases a) auto
  from record_progress_ok [OF ok Cons.prems(4)]
  obtain T out where r: "record_progress env req x i td
           = (td\<lparr>partial_x_samples := Some (Some x), temp_images := T\<rparr>, Inr out)"
    by blast
  define td1 where "td1 = td\<lparr>partial_x_samples := Some (Some x), temp_images := T\<rparr>"
  have ns: "\<not> stop_requested env (length events)" "\<not> stop_processing td1"
    using Cons.prems(2,3) by (auto simp: td1_def)
  have m1: "modelFS td1 \<noteq> None"
    using Cons.prems(4) by (simp add: td1_def)
  have step: "run_sampler env req n (a # pre @ acts) td events
               = run_sampler env req n (pre @ acts) td1 (events @ [Progress i n out])"
    using ns by (simp add: a r td1_def [symmetric])
  have p1: "list_all (callback_ok env req) pre"
    using Cons.prems(1) by simp
  have p2: "\<forall>j < length pre. \<not> stop_requested env (length (events @ [Progress i n out]) + j)"
    using Cons.prems(2) by auto
  from Cons.IH [OF p1 p2 ns(2) m1]
  obtain T' P' evs where ih:
    "run_sampler env req n (pre @ acts) td1 (events @ [Progress i n out])
       = run_sampler env req n acts (td1\<lparr>partial_x_samples := P', temp_images := T'\<rparr>)
           ((events @ [Progress i n out]) @ evs)"
    "length evs = length pre" "list_all is_progress evs"
    by blast
  have t: "td1\<lparr>partial_x_samples := P', temp_images := T'\<rparr>
             = td\<lparr>partial_x_samples := P', temp_images := T'\<rparr>"
    by (simp add: td1_def)
  show ?case
    apply (rule exI [of _ T'], rule exI [of _ P'], rule exI [of _ "Progress i n out # evs"])
    using ih by (simp add: step t)
qed

lemma run_sampler_stop:
  fixes td :: "'x list thread_data"
  assumes "preview_ok env req x i" and "stop_requested env (length events)"
    and "modelFS td \<noteq> None"
  shows "\<exists>T out. run_sampler env req n (ImgCallback x i # rest) td events
           = (td\<lparr>partial_x_samples := Some (Some x), temp_images := T, stop_processing := True\<rparr>,
              events @ [Progress i n out],
              Some (UserInitiatedStop ''User requested that we stop processing''))"
proof -
  from record_progress_ok [OF assms(1) assms(3)]
  obtain T out where r: "record_progress env req x i td
           = (td\<lparr>partial_x_samples := Some (Some x), temp_images := T\<rparr>, Inr out)"
    by blast
  show ?thesis
    apply (rule exI [of _ T], rule exI [of _ out])
    using assms(2) by (simp add: r)
qed

lemma save_loop_stopped:
  fixes td :: "'l thread_data"
  assumes "stop_processing td" and "list_all (encodes_ok env req) (map snd ps)"
  shows "\<exists>new. save_loop env req p ps opt_seed td images = (td, Inr (images @ new))
           \<and> length new = length ps
           \<and> (\<forall>j < length ps.
                 img_to_base64_str (image_codec env) (snd (ps ! j)) (output_format req)
                   = Inr (ri_data (new ! j))
                 \<and> ri_seed (new ! j) = opt_seed + int j)"
  using assms(2)
proof (induction ps arbitrary: opt_seed images)
  case Nil
  then show ?case by simp
next
  case (Cons a ps)
  obtain i img where a: "a = (i, img)" by (cases a)
  from Cons.prems have "encodes_ok env req img" by (simp add: a)
  then obtain s where s: "img_to_base64_str (image_codec env) img (output_format req) = Inr s"
    by (auto simp: encodes_ok_def is_ok_def img_to_base64_str_def split: sum.splits)
  define r where "r = response_image_of env req p i opt_seed None s"
  have one: "save_one env req p i img opt_seed td images = (td, Inr (images @ [r]))"
    using assms(1) by (simp add: save_one_def s r_def)
  from Cons.prems have "list_all (encodes_ok env req) (map snd ps)" by simp
  from Cons.IH [OF this, of "opt_seed + 1" "images @ [r]"]
  obtain new where n: "save_loop env req p ps (opt_seed + 1) td (images @ [r])
       = (td, Inr ((images @ [r]) @ new))"
    "length new = length ps"
    "\<forall>j < length ps.
        img_to_base64_str (image_codec env) (snd (ps ! j)) (output_format req)
          = Inr (ri_data (new ! j))
        \<and> ri_seed (new ! j) = opt_seed + 1 + int j"
    by blast
  have d: "ri_data r = s" "ri_seed r = opt_seed"
    by (simp_all add: r_def response_image_of_def)
  have "\<forall>j < length (a # ps).
          img_to_base64_str (image_codec env) (snd ((a # ps) ! j)) (output_format req)
            = Inr (ri_data ((r # new) ! j))
          \<and> ri_seed ((r # new) ! j) = opt_seed + int j"
  proof (intro allI impI)
    fix j assume "j < length (a # ps)"
    then show "img_to_base64_str (image_codec env) (snd ((a # ps) ! j)) (output_format req)
            = Inr (ri_data ((r # new) ! j))
          \<and> ri_seed ((r # new) ! j) = opt_seed + int j"
      using n(3) s d by (cases j) (auto simp: a)
  qed
  then show ?case
    apply (intro exI [of _ "r # new"])
    using n(1,2) by (simp add: a one)
qed


lemma wait_model_move_to_ok:
  assumes "m \<noteq> None"
  shows "\<exists>c. wait_model_move_to env td m target = Inr (Some c)"
  using assms by (auto simp: wait_model_move_to_def)

lemma fs_to_device_ok:
  assumes "modelFS td \<noteq> None"
  shows "\<exists>fs. fs_to_device td = Inr (td\<lparr>modelFS := Some fs\<rparr>)"
proof (cases "reduced_memory td")
  case True
  then show ?thesis using assms by (auto simp: fs_to_device_def)
next
  case False
  from assms obtain fs where fs: "modelFS td = Some fs" by auto
  then have "td = td\<lparr>modelFS := Some fs\<rparr>" by simp
  then show ?thesis using False by (metis fs_to_device_def)
qed

lemma run_handler_streaming:
  fixes td :: "'x list thread_data"
  assumes "stream_progress_updates req" "modelCS td \<noteq> None" "model td \<noteq> None"
  shows "\<exists>C n. run_handler env req c uc inp td
           = run_sampler env req n (sample env (handler_args env req c uc inp))
               (td\<lparr>partial_x_samples := Some None, modelCS := C\<rparr>) []"
proof (cases inp)
  case None
  from assms(2) have "modelCS (td\<lparr>partial_x_samples := Some None\<rparr>) \<noteq> None" by simp
  from wait_model_move_to_ok [OF this]
  obtain cs where "wait_model_move_to env (td\<lparr>partial_x_samples := Some None\<rparr>)
                     (modelCS (td\<lparr>partial_x_samples := Some None\<rparr>)) cpu = Inr (Some cs)"
    by blast
  then show ?thesis
    using assms(1,3) None
    by (intro exI [of _ "Some cs"] exI [of _ "num_inference_steps req"])
       (auto simp: run_handler_def handler_args_def Let_def)
next
  case (Some i2i)
  show ?thesis
    using assms(1,3) Some
    by (intro exI [of _ "modelCS td"] exI [of _ "t_enc i2i"])
       (auto simp: run_handler_def handler_args_def Let_def)
qed

lemma fs_to_host_stop:
  assumes "modelFS td \<noteq> None"
  shows "\<exists>F. fs_to_host env td = Inr (td\<lparr>modelFS := F\<rparr>)"
proof (cases "reduced_memory td")
  case True
  from wait_model_move_to_ok [OF assms]
  obtain fs where "wait_model_move_to env td (modelFS td) cpu = Inr (Some fs)"
    by blast
  then show ?thesis using True
    by (intro exI [of _ "Some fs"]) (simp add: fs_to_host_def)
next
  case False
  then have "fs_to_host env td = Inr (td\<lparr>modelFS := modelFS td\<rparr>)"
    by (simp add: fs_to_host_def)
  then show ?thesis by blast
qed

lemma deliver_stopped:
  fixes td :: "'x list thread_data"
  assumes st: "stop_processing td" and fs: "modelFS td \<noteq> None"
    and n: "0 < num_outputs req" "nat (num_outputs req) \<le> length x"
    and enc: "list_all (encodes_ok env req)
               (map (decode_first_stage env) (take (nat (num_outputs req)) x))"
  shows "\<exists>td' images.
           deliver env req p events (Latents x) td = (td', events @ [ResponseJson images], None)
         \<and> length images = nat (num_outputs req)
         \<and> (\<forall>j < nat (num_outputs req).
               img_to_base64_str (image_codec env) (decode_first_stage env (x ! j)) (output_format req)
                 = Inr (ri_data (images ! j)))"
proof -
  define imgs where "imgs = map (decode_first_stage env) (take (nat (num_outputs req)) x)"
  define ps where "ps = zip [0 ..< length imgs] imgs"
  have li: "length imgs = nat (num_outputs req)"
    using n by (simp add: imgs_def)
  have dec: "decode_images env td (num_outputs req) (Latents x) = Inr imgs"
    using n fs by (auto simp: decode_images_def imgs_def)
  have sp: "map snd ps = imgs" "length ps = nat (num_outputs req)"
    using li by (simp_all add: ps_def)
  obtain F where F: "fs_to_host env td = Inr (td\<lparr>modelFS := F\<rparr>)"
    using fs_to_host_stop [OF fs] by blast
  define td0 where "td0 = td\<lparr>modelFS := F\<rparr>"
  have st': "stop_processing td0"
    using st by (simp add: td0_def)
  have enc': "list_all (encodes_ok env req) (map snd ps)"
    using enc by (simp add: sp imgs_def)
  from save_loop_stopped [OF st' enc', of p "seed req" "[]"]
  obtain new where s: "save_loop env req p ps (seed req) td0 [] = (td0, Inr new)"
    "length new = length ps"
    "\<forall>j < length ps.
        img_to_base64_str (image_codec env) (snd (ps ! j)) (output_format req)
          = Inr (ri_data (new ! j))"
    by auto
  have el: "snd (ps ! j) = decode_first_stage env (x ! j)" if "j < nat (num_outputs req)" for j
    using that li n by (simp add: ps_def imgs_def)
  have "deliver env req p events (Latents x) td
          = ((if reduced_memory td0 then unload_filters td0 else td0),
             events @ [ResponseJson new], None)"
    by (simp add: deliver_def dec F td0_def [symmetric] ps_def [symmetric] s(1))
  then show ?thesis
    using s(2,3) sp(2) el
    by (intro exI [of _ "if reduced_memory td0 then unload_filters td0 else td0"] exI [of _ new])
       simp
qed

text \<open>
  Claim C2.  The request streams progress, the worker has its three model handles bound,
  and the stop flag is clear, as the head of \<^verbatim>\<open>do_mk_img\<close> leaves it.

  First part: the sampler calls the callback for the batches of \<open>pre\<close> and then for the
  batch \<open>x\<close> at step \<open>k\<close>; the consumer asks to stop during the progress event of
  that call and not before; the previews made on the way and the encoding of the final
  images do not raise.  Then the callback raises \<^verbatim>\<open>UserInitiatedStop\<close>, the pipeline
  ends without an exception, after one progress event for each call it yields the
  response, and the response has exactly one image for each batch element, the
  \<open>j\<close>-th being the encoding of the decoded \<open>j\<close>-th latent of \<open>x\<close>, the batch recorded
  by the last call of the callback.

  Second part: \<^verbatim>\<open>UserInitiatedStop\<close> reaches the handler before the callback was ever
  called.  Then the pipeline ends without an exception and yields a response with no
  image.
\<close>

theorem cancellation_keeps_last_partial:
  fixes td :: "'x list thread_data"
  assumes str: "stream_progress_updates req"
    and fs: "modelFS td \<noteq> None" and cs: "modelCS td \<noteq> None" and md: "model td \<noteq> None"
    and ns: "\<not> stop_processing td"
  shows "(sample env (handler_args env req c uc inp) = pre @ ImgCallback x k # rest
          \<and> list_all (callback_ok env req) pre \<and> preview_ok env req x k
          \<and> (\<forall>j < length pre. \<not> stop_requested env j) \<and> stop_requested env (length pre)
          \<and> 0 < num_outputs req \<and> nat (num_outputs req) \<le> length x
          \<and> list_all (encodes_ok env req)
               (map (decode_first_stage env) (take (nat (num_outputs req)) x))
          \<longrightarrow> (\<exists>td' progress images.
                 sample_and_deliver env req p c uc inp td
                   = (td', progress @ [ResponseJson images], None)
               \<and> length progress = length pre + 1 \<and> list_all is_progress progress
               \<and> length images = nat (num_outputs req)
               \<and> (\<forall>j < nat (num_outputs req).
                     img_to_base64_str (image_codec env) (decode_first_stage env (x ! j))
                         (output_format req)
                       = Inr (ri_data (images ! j)))))
       \<and> (sample env (handler_args env req c uc inp) = SamplerRaise (UserInitiatedStop m) # rest
          \<longrightarrow> (\<exists>td'. sample_and_deliver env req p c uc inp td = (td', [ResponseJson []], None)))"
proof (intro conjI impI)
  obtain fs0 where fs0: "fs_to_device td = Inr (td\<lparr>modelFS := Some fs0\<rparr>)"
    using fs_to_device_ok [OF fs] by blast
  define F where "F = Some fs0"
  have F: "fs_to_device td = Inr (td\<lparr>modelFS := F\<rparr>)"
    by (simp add: fs0 F_def)
  have cs1: "modelCS (td\<lparr>modelFS := F\<rparr>) \<noteq> None" using cs by simp
  have md1: "model (td\<lparr>modelFS := F\<rparr>) \<noteq> None" using md by simp
  from run_handler_streaming [OF str cs1 md1, of env c uc inp]
  obtain C n where H: "run_handler env req c uc inp (td\<lparr>modelFS := F\<rparr>)
           = run_sampler env req n (sample env (handler_args env req c uc inp))
               (td\<lparr>modelFS := F, partial_x_samples := Some None, modelCS := C\<rparr>) []"
    by auto
  define td1 where "td1 = td\<lparr>modelFS := F, partial_x_samples := Some None, modelCS := C\<rparr>"
  have ns1: "\<not> stop_processing td1" using ns by (simp add: td1_def)
  have m1: "modelFS td1 \<noteq> None" by (simp add: td1_def F_def)
  {
    assume a: "sample env (handler_args env req c uc inp) = pre @ ImgCallback x k # rest
          \<and> list_all (callback_ok env req) pre \<and> preview_ok env req x k
          \<and> (\<forall>j < length pre. \<not> stop_requested env j) \<and> stop_requested env (length pre)
          \<and> 0 < num_outputs req \<and> nat (num_outputs req) \<le> length x
          \<and> list_all (encodes_ok env req)
               (map (decode_first_stage env) (take (nat (num_outputs req)) x))"
    then have a2: "\<forall>j < length pre. \<not> stop_requested env (length ([] :: event list) + j)"
      by simp
    from a have a1: "list_all (callback_ok env req) pre" by simp
    from run_sampler_prefix [OF a1 a2 ns1 m1, of n "ImgCallback x k # rest"]
    obtain T P evs where pr:
      "run_sampler env req n (pre @ ImgCallback x k # rest) td1 []
         = run_sampler env req n (ImgCallback x k # rest)
             (td1\<lparr>partial_x_samples := P, temp_images := T\<rparr>) ([] @ evs)"
      "length evs = length pre" "list_all is_progress evs"
      by blast
    from a have ok: "preview_ok env req x k" and sr: "stop_requested env (length evs)"
      by (simp_all add: pr(2))
    have m2: "modelFS (td1\<lparr>partial_x_samples := P, temp_images := T\<rparr>) \<noteq> None"
      using m1 by simp
    from run_sampler_stop [OF ok sr m2, of n rest]
    obtain T' out where st:
      "run_sampler env req n (ImgCallback x k # rest)
          (td1\<lparr>partial_x_samples := P, temp_images := T\<rparr>) evs
         = (td1\<lparr>partial_x_samples := P, temp_images := T\<rparr>
              \<lparr>partial_x_samples := Some (Some x), temp_images := T', stop_processing := True\<rparr>,
            evs @ [Progress k n out],
            Some (UserInitiatedStop ''User requested that we stop processing''))"
      by blast
    define td2 where "td2 = td1\<lparr>partial_x_samples := P, temp_images := T\<rparr>
              \<lparr>partial_x_samples := Some (Some x), temp_images := T', stop_processing := True\<rparr>"
    have run: "run_handler env req c uc inp (td\<lparr>modelFS := F\<rparr>)
                 = (td2, evs @ [Progress k n out],
                    Some (UserInitiatedStop ''User requested that we stop processing''))"
      using a pr(1) st by (simp add: H td1_def [symmetric] td2_def)
    have col: "collect_samples td2 (Some (UserInitiatedStop ''User requested that we stop processing''))
                 = (td2\<lparr>partial_x_samples := None\<rparr>, Inr (Some (Latents x)))"
      by (simp add: collect_samples_def td2_def)
    have st3: "stop_processing (td2\<lparr>partial_x_samples := None\<rparr>)"
      by (simp add: td2_def)
    have fs3: "modelFS (td2\<lparr>partial_x_samples := None\<rparr>) \<noteq> None"
      using m1 by (simp add: td2_def)
    from a have n1: "0 < num_outputs req" and n2: "nat (num_outputs req) \<le> length x"
      and enc: "list_all (encodes_ok env req)
               (map (decode_first_stage env) (take (nat (num_outputs req)) x))"
      by simp_all
    from deliver_stopped [OF st3 fs3 n1 n2 enc, of p "evs @ [Progress k n out]"]
    obtain td' images where d:
      "deliver env req p (evs @ [Progress k n out]) (Latents x) (td2\<lparr>partial_x_samples := None\<rparr>)
         = (td', (evs @ [Progress k n out]) @ [ResponseJson images], None)"
      "length images = nat (num_outputs req)"
      "\<forall>j < nat (num_outputs req).
          img_to_base64_str (image_codec env) (decode_first_stage env (x ! j)) (output_format req)
            = Inr (ri_data (images ! j))"
      by blast
    have "sample_and_deliver env req p c uc inp td
            = (td', (evs @ [Progress k n out]) @ [ResponseJson images], None)"
      by (simp add: sample_and_deliver_def F run col d(1))
    then have "\<exists>td' progress images.
                 sample_and_deliver env req p c uc inp td
                   = (td', progress @ [ResponseJson images], None)
               \<and> length progress = length pre + 1 \<and> list_all is_progress progress
               \<and> length images = nat (num_outputs req)
               \<and> (\<forall>j < nat (num_outputs req).
                     img_to_base64_str (image_codec env) (decode_first_stage env (x ! j))
                         (output_format req)
                       = Inr (ri_data (images ! j)))"
      using d(2,3) pr(2,3)
      by (intro exI [of _ td'] exI [of _ "evs @ [Progress k n out]"] exI [of _ images]) simp
  }
  then show "sample env (handler_args env req c uc inp) = pre @ ImgCallback x k # rest
          \<and> list_all (callback_ok env req) pre \<and> preview_ok env req x k
          \<and> (\<forall>j < length pre. \<not> stop_requested env j) \<and> stop_requested env (length pre)
          \<and> 0 < num_outputs req \<and> nat (num_outputs req) \<le> length x
          \<and> list_all (encodes_ok env req)
               (map (decode_first_stage env) (take (nat (num_outputs req)) x))
          \<Longrightarrow> \<exists>td' progress images.
                 sample_and_deliver env req p c uc inp td
                   = (td', progress @ [ResponseJson images], None)
               \<and> length progress = length pre + 1 \<and> list_all is_progress progress
               \<and> length images = nat (num_outputs req)
               \<and> (\<forall>j < nat (num_outputs req).
                     img_to_base64_str (image_codec env) (decode_first_stage env (x ! j))
                         (output_format req)
                       = Inr (ri_data (images ! j)))"
    by blast
  {
    assume b: "sample env (handler_args env req c uc inp) = SamplerRaise (UserInitiatedStop m) # rest"
    have run: "run_handler env req c uc inp (td\<lparr>modelFS := F\<rparr>)
                 = (td1, [], Some (UserInitiatedStop m))"
      by (simp add: H b td1_def)
    have col: "collect_samples td1 (Some (UserInitiatedStop m))
                 = (td1\<lparr>partial_x_samples := None\<rparr>, Inr None)"
      by (simp add: collect_samples_def td1_def)
    have "sample_and_deliver env req p c uc inp td
            = (td1\<lparr>partial_x_samples := None\<rparr>, [ResponseJson []], None)"
      by (simp add: sample_and_deliver_def F run col)
    then have "\<exists>td'. sample_and_deliver env req p c uc inp td = (td', [ResponseJson []], None)"
      by blast
  }
  then show "sample env (handler_args env req c uc inp) = SamplerRaise (UserInitiatedStop m) # rest
          \<Longrightarrow> \<exists>td'. sample_and_deliver env req p c uc inp td = (td', [ResponseJson []], None)"
    by blast
qed

lemma td_ready_fields:
  "modelFS (td_ready :: nat list thread_data) \<noteq> None"
  "modelCS (td_ready :: nat list thread_data) \<noteq> None"
  "model (td_ready :: nat list thread_data) \<noteq> None"
  "\<not> stop_processing (td_ready :: nat list thread_data)"
  "reduced_memory (td_ready :: nat list thread_data)"
  by (simp_all add: td_ready_def load_model_ckpt_def td_gpu0_def thread_init_def example_files_def
        Let_def cpu_def)

lemma short_request_fields:
  "stream_progress_updates short_request" "\<not> stream_image_progress short_request"
  "num_outputs short_request = 1" "num_inference_steps short_request = 4"
  "output_format short_request = ''jpeg''" "init_image short_request = None"
  by (simp_all add: short_request_def example_request_def)

lemma upt_4: "[0 ..< 4] = [0, 1, 2, 3 :: nat]"
  by code_simp

lemma sample_stop_at_2:
  "sample env_stop_at_2 (handler_args env_stop_at_2 short_request c uc None)
     = [ImgCallback [100] 0, ImgCallback [101] 1] @ ImgCallback [102] 2 # [ImgCallback [103] 3]"
  by (simp add: env_stop_at_2_def example_env_def handler_args_def txt2img_args_def
        short_request_fields upt_4)

theorem cancellation_keeps_last_partial_witness:
  "stream_progress_updates short_request
   \<and> modelFS (td_ready :: nat list thread_data) \<noteq> None
   \<and> modelCS (td_ready :: nat list thread_data) \<noteq> None
   \<and> model (td_ready :: nat list thread_data) \<noteq> None
   \<and> \<not> stop_processing (td_ready :: nat list thread_data)
   \<and> sample env_stop_at_2 (handler_args env_stop_at_2 short_request [3, 1] (Some [0, 1]) None)
        = [ImgCallback [100] 0, ImgCallback [101] 1] @ ImgCallback [102] 2 # [ImgCallback [103] 3]
   \<and> list_all (callback_ok env_stop_at_2 short_request) [ImgCallback [100] 0, ImgCallback [101] 1]
   \<and> preview_ok env_stop_at_2 short_request [102] 2
   \<and> \<not> stop_requested env_stop_at_2 0 \<and> \<not> stop_requested env_stop_at_2 1
   \<and> stop_requested env_stop_at_2 (length [ImgCallback [100 :: nat] 0, ImgCallback [101] 1])
   \<and> 0 < num_outputs short_request \<and> nat (num_outputs short_request) \<le> length [102 :: nat]
   \<and> list_all (encodes_ok env_stop_at_2 short_request)
         (map (decode_first_stage env_stop_at_2) (take (nat (num_outputs short_request)) [102]))
   \<and> (\<exists>td' progress images.
          sample_and_deliver env_stop_at_2 short_request ''a photo of a cat'' [3, 1] (Some [0, 1])
              None (td_ready :: nat list thread_data)
            = (td', progress @ [ResponseJson images], None)
        \<and> length progress = 3 \<and> list_all is_progress progress
        \<and> length images = 1
        \<and> ri_data (images ! 0) = ''data:image/jpeg;base64,ZmZm'')
   \<and> sample env_stop_first (handler_args env_stop_first short_request [3, 1] (Some [0, 1]) None)
        = SamplerRaise (UserInitiatedStop ''stop'') # []
   \<and> (\<exists>td'. sample_and_deliver env_stop_first short_request ''a photo of a cat'' [3, 1]
                 (Some [0, 1]) None (td_ready :: nat list thread_data)
               = (td', [ResponseJson []], None))"
proof -
  have s: "sample env_stop_at_2 (handler_args env_stop_at_2 short_request [3, 1] (Some [0, 1]) None)
        = [ImgCallback [100] 0, ImgCallback [101] 1] @ ImgCallback [102] 2 # [ImgCallback [103] 3]"
    by (rule sample_stop_at_2)
  have c: "list_all (callback_ok env_stop_at_2 short_request) [ImgCallback [100] 0, ImgCallback [101] 1]"
    "preview_ok env_stop_at_2 short_request [102] 2"
    by (simp_all add: preview_ok_def short_request_fields)
  have r: "\<forall>j < length [ImgCallback [100 :: nat] 0, ImgCallback [101] 1]. \<not> stop_requested env_stop_at_2 j"
    "stop_requested env_stop_at_2 (length [ImgCallback [100 :: nat] 0, ImgCallback [101] 1])"
    by (simp_all add: env_stop_at_2_def example_env_def)
  have n: "0 < num_outputs short_request" "nat (num_outputs short_request) \<le> length [102 :: nat]"
    by (simp_all add: short_request_fields)
  have e: "list_all (encodes_ok env_stop_at_2 short_request)
         (map (decode_first_stage env_stop_at_2) (take (nat (num_outputs short_request)) [102]))"
    by (simp add: short_request_fields encodes_ok_def is_ok_def env_stop_at_2_def example_env_def
          raw_codec_def)
  have b: "img_to_base64_str (image_codec env_stop_at_2) (decode_first_stage env_stop_at_2 ([102] ! 0))
             (output_format short_request) = Inr ''data:image/jpeg;base64,ZmZm''"
    by (simp add: short_request_fields env_stop_at_2_def example_env_def raw_codec_def
          img_to_base64_str_def lower_def lower_char_def b64_alphabet_def)
  have f: "sample env_stop_first (handler_args env_stop_first short_request [3, 1] (Some [0, 1]) None)
        = SamplerRaise (UserInitiatedStop ''stop'') # []"
    by (simp add: env_stop_first_def example_env_def)
  note t1 = cancellation_keeps_last_partial
              [where env = env_stop_at_2 and td = "td_ready :: nat list thread_data"
                 and req = short_request and c = "[3, 1]" and uc = "Some [0, 1]" and inp = None
                 and pre = "[ImgCallback [100] 0, ImgCallback [101] 1]" and x = "[102]" and k = 2
                 and rest = "[ImgCallback [103] 3]" and p = "''a photo of a cat''",
               OF short_request_fields(1) td_ready_fields(1) td_ready_fields(2) td_ready_fields(3)
                  td_ready_fields(4),
               THEN conjunct1, rule_format, OF conjI [OF s conjI [OF c(1) conjI [OF c(2)
                 conjI [OF r(1) conjI [OF r(2) conjI [OF n(1) conjI [OF n(2) e]]]]]]]]
  note t2 = cancellation_keeps_last_partial
              [where env = env_stop_first and td = "td_ready :: nat list thread_data"
                 and req = short_request and c = "[3, 1]" and uc = "Some [0, 1]" and inp = None
                 and m = "''stop''" and rest = "[]" and p = "''a photo of a cat''",
               OF short_request_fields(1) td_ready_fields(1) td_ready_fields(2) td_ready_fields(3)
                  td_ready_fields(4),
               THEN conjunct2, rule_format, OF f]
  from t1 obtain td' progress images where
    d: "sample_and_deliver env_stop_at_2 short_request ''a photo of a cat'' [3, 1] (Some [0, 1])
              None (td_ready :: nat list thread_data)
            = (td', progress @ [ResponseJson images], None)"
      "length progress = length [ImgCallback [100 :: nat] 0, ImgCallback [101] 1] + 1"
      "list_all is_progress progress"
      "length images = nat (num_outputs short_request)"
      "\<forall>j < nat (num_outputs short_request).
          img_to_base64_str (image_codec env_stop_at_2) (decode_first_stage env_stop_at_2 ([102] ! j))
             (output_format short_request) = Inr (ri_data (images ! j))"
    by blast
  from d(5) b have "ri_data (images ! 0) = ''data:image/jpeg;base64,ZmZm''"
    by (simp add: short_request_fields(3))
  with d have first: "\<exists>td' progress images.
          sample_and_deliver env_stop_at_2 short_request ''a photo of a cat'' [3, 1] (Some [0, 1])
              None (td_ready :: nat list thread_data)
            = (td', progress @ [ResponseJson images], None)
        \<and> length progress = 3 \<and> list_all is_progress progress
        \<and> length images = 1
        \<and> ri_data (images ! 0) = ''data:image/jpeg;base64,ZmZm''"
    by (intro exI [of _ td'] exI [of _ progress] exI [of _ images])
       (simp add: short_request_fields(3))
  have r01: "\<not> stop_requested env_stop_at_2 0" "\<not> stop_requested env_stop_at_2 1"
    by (simp_all add: env_stop_at_2_def example_env_def)
  show ?thesis
    using short_request_fields(1) td_ready_fields(1,2,3,4) s c r01 r(2) n e first f t2
    by (intro conjI) assumption+
qed

section \<open>Properties of the failure handler\<close>

text \<open>
  When the three model handles are bound, an exception that leaves \<^verbatim>\<open>do_mk_img\<close> becomes
  the failure record with the description of the exception, and the cleanup follows the
  \<^verbatim>\<open>reduced_memory\<close> flag: the components are moved to the host, or everything is
  unloaded.
\<close>

lemma mk_img_reports_failure:
  assumes "do_mk_img env req td = (td1, events, Some e)"
    and "reduced_memory td1 \<longrightarrow> modelFS td1 \<noteq> None \<and> modelCS td1 \<noteq> None \<and> model td1 \<noteq> None"
  shows "\<exists>td2. mk_img env req td = (td2, events @ [Failed (str_of e)], None)
           \<and> (if reduced_memory td1
               then map_option comp_at (modelFS td2) = Some cpu
                    \<and> map_option comp_at (modelCS td2) = Some cpu
                    \<and> map_option model1_at (model td2) = Some cpu
                    \<and> map_option model2_at (model td2) = Some cpu
               else model td2 = None \<and> modelCS td2 = None \<and> modelFS td2 = None
                    \<and> model_gfpgan td2 = None \<and> model_real_esrgan td2 = None)"
  using assms
  by (auto simp: mk_img_def release_to_host_def Let_def unload_models_def unload_filters_def)

text \<open>
  Claim C6.  Every exception that leaves the pipeline should end in a failure record.
  On a worker that has no model yet, a request for a checkpoint file that does not exist
  raises \<^verbatim>\<open>FileNotFoundError\<close> in \<^verbatim>\<open>do_mk_img\<close>; \<^verbatim>\<open>reduced_memory\<close> is set, so the
  handler calls \<^verbatim>\<open>thread_data.modelFS.to('cpu')\<close> on \<^verbatim>\<open>None\<close>, and the
  \<^verbatim>\<open>AttributeError\<close> leaves \<^verbatim>\<open>mk_img\<close>: nothing is yielded.
\<close>

theorem mk_img_failure_before_load_escapes:
  "snd (do_mk_img example_env (example_request\<lparr>use_stable_diffusion_model := ''models/missing''\<rparr>)
          (td_gpu0 :: nat list thread_data))
     = ([], Some (FileNotFoundError ''Cannot find models/missing.ckpt''))
   \<and> snd (mk_img example_env (example_request\<lparr>use_stable_diffusion_model := ''models/missing''\<rparr>)
          (td_gpu0 :: nat list thread_data))
     = ([], Some (no_attribute ''to''))"
proof -
  have p: "prepare_model (os_path_exists example_env)
             (example_request\<lparr>use_stable_diffusion_model := ''models/missing''\<rparr>)
             (td_gpu0 :: nat list thread_data)
           = (td_gpu0, Inl (FileNotFoundError ''Cannot find models/missing.ckpt''))"
    by (simp add: prepare_model_def example_env_def example_files_def td_gpu0_def thread_init_def)
  have d: "do_mk_img example_env (example_request\<lparr>use_stable_diffusion_model := ''models/missing''\<rparr>)
          (td_gpu0 :: nat list thread_data)
           = (td_gpu0, [], Some (FileNotFoundError ''Cannot find models/missing.ckpt''))"
    by (simp add: do_mk_img_def p)
  have r: "release_to_host (td_gpu0 :: nat list thread_data)
             = (td_gpu0, Some (no_attribute ''to''))"
    by (simp add: release_to_host_def td_gpu0_def thread_init_def)
  have m: "reduced_memory (td_gpu0 :: nat list thread_data)"
    by (simp add: td_gpu0_def thread_init_def)
  show ?thesis
    by (simp add: mk_img_def d r m)
qed

section \<open>Properties of the partial step count\<close>

text \<open>
  Rounding to binary64 leaves zero, the sign and every integer of magnitude up to
  \<open>2\<^sup>5\<^sup>3\<close> as they are.
\<close>

lemma round_half_even_of_int [simp]: "round_half_even (of_int m) = m"
  by (simp add: round_half_even_def)

lemma b64_round_0 [simp]: "b64_round 0 = 0"
  by (simp add: b64_round_def)















end
